theory Spec2Isabelle
  imports Main "HOL-Library.Sublist" "HOL-Library.Multiset"
begin

section \<open>Strings of the JavaScript runtime\<close>

text \<open>
  A text is the list of the bytes of its UTF-8 form, for a text that has one (no lone
  surrogate): an ASCII character is one byte, every other character two to four bytes of
  which the first never occurs inside a character. A text occurs in another as a run of
  code units exactly when its bytes occur as a run of bytes.
\<close>

text \<open>\<^verbatim>\<open>s.includes(x)\<close>: \<open>x\<close> occurs in \<open>s\<close> as a contiguous run.\<close>

fun str_includes :: "string \<Rightarrow> string \<Rightarrow> bool" where
  "str_includes [] x = (x = [])"
| "str_includes (c # cs) x = (prefix x (c # cs) \<or> str_includes cs x)"

text \<open>
  The white space of the language, which \<^verbatim>\<open>String.prototype.trim\<close> removes and
  \<^verbatim>\<open>parseInt\<close> skips: the characters TAB, LF, VT, FF, CR, SPACE, U+00A0, U+1680,
  U+2000 to U+200A, U+2028, U+2029, U+202F, U+205F, U+3000 and U+FEFF, each as its bytes.
\<close>

definition whiteSpace :: "string list" where
  "whiteSpace =
     [[CHR 0x09], [CHR 0x0A], [CHR 0x0B], [CHR 0x0C], [CHR 0x0D], [CHR 0x20],
      [CHR 0xC2, CHR 0xA0],
      [CHR 0xE1, CHR 0x9A, CHR 0x80],
      [CHR 0xE2, CHR 0x80, CHR 0x80], [CHR 0xE2, CHR 0x80, CHR 0x81],
      [CHR 0xE2, CHR 0x80, CHR 0x82], [CHR 0xE2, CHR 0x80, CHR 0x83],
      [CHR 0xE2, CHR 0x80, CHR 0x84], [CHR 0xE2, CHR 0x80, CHR 0x85],
      [CHR 0xE2, CHR 0x80, CHR 0x86], [CHR 0xE2, CHR 0x80, CHR 0x87],
      [CHR 0xE2, CHR 0x80, CHR 0x88], [CHR 0xE2, CHR 0x80, CHR 0x89],
      [CHR 0xE2, CHR 0x80, CHR 0x8A],
      [CHR 0xE2, CHR 0x80, CHR 0xA8], [CHR 0xE2, CHR 0x80, CHR 0xA9],
      [CHR 0xE2, CHR 0x80, CHR 0xAF],
      [CHR 0xE2, CHR 0x81, CHR 0x9F],
      [CHR 0xE3, CHR 0x80, CHR 0x80],
      [CHR 0xEF, CHR 0xBB, CHR 0xBF]]"

text \<open>
  \<open>strip_leading ws s\<close> removes from the front of \<open>s\<close> every run of bytes of \<open>ws\<close>, one
  after the other, until none of them is at the front. The end of a text is trimmed as
  the front of the reversed text, by the reversed runs.
\<close>

fun strip_leading :: "string list \<Rightarrow> string \<Rightarrow> string" where
  "strip_leading ws [] = []"
| "strip_leading ws (c # cs) =
     (case find (\<lambda>w. prefix w (c # cs)) ws of
        None \<Rightarrow> c # cs
      | Some w \<Rightarrow> strip_leading ws (drop (length w - 1) cs))"

definition trimStart :: "string \<Rightarrow> string" where
  "trimStart s = strip_leading whiteSpace s"

definition trimEnd :: "string \<Rightarrow> string" where
  "trimEnd s = rev (strip_leading (map rev whiteSpace) (rev s))"

definition trim :: "string \<Rightarrow> string" where
  "trim s = trimEnd (trimStart s)"

text \<open>
  \<^verbatim>\<open>String.prototype.toLowerCase\<close> is a function of the runtime over all of Unicode. The
  code that calls it takes it as the parameter \<open>toLowerCase\<close>. On a text of ASCII
  characters it is the function \<open>toLowerCase_ascii\<close>, which the examples, all of ASCII
  texts, give for it.
\<close>

definition toLowerCase_char :: "char \<Rightarrow> char" where
  "toLowerCase_char c =
     (case map_of (zip ''ABCDEFGHIJKLMNOPQRSTUVWXYZ'' ''abcdefghijklmnopqrstuvwxyz'') c of
        Some l \<Rightarrow> l
      | None \<Rightarrow> c)"

definition toLowerCase_ascii :: "string \<Rightarrow> string" where
  "toLowerCase_ascii s = map toLowerCase_char s"

section \<open>The article store and the article query (components/NewsViewer.tsx)\<close>

text \<open>The interface \<^verbatim>\<open>NewsArticle\<close> of types.ts; the field \<^verbatim>\<open>id\<close> is named \<open>id_num\<close>.\<close>

record NewsArticle =
  id_num :: int
  channelId :: string
  title :: string
  content :: string
  date :: string
  imageUrl :: string

text \<open>
  \<^verbatim>\<open>new Date(s).getTime()\<close> is a function of the runtime: the time value of the date
  string in milliseconds, or NaN (\<open>None\<close>) when the string does not parse. The query takes
  it as the parameter \<open>getTime\<close>. The comparator of line 24 subtracts two time values;
  a subtraction with NaN is NaN. (Time values are integers; the sort reads only the sign
  of the difference.)
\<close>

definition compareFn :: "(string \<Rightarrow> int option) \<Rightarrow> NewsArticle \<Rightarrow> NewsArticle \<Rightarrow> int option" where
  "compareFn getTime a b =
     (case getTime (date b) of
        None \<Rightarrow> None
      | Some tb \<Rightarrow> (case getTime (date a) of None \<Rightarrow> None | Some ta \<Rightarrow> Some (tb - ta)))"

text \<open>
  \<^verbatim>\<open>Array.prototype.sort\<close> with a comparator. The language's SortCompare reads a NaN
  from the comparator as +0. The sort is stable; it is modelled as the insertion sort
  that puts an element before the first later element it does not compare greater than.
  (With a comparator that is not a consistent order the language leaves the resulting
  order to the implementation; with a consistent one every stable sort gives this list.)
\<close>

definition SortCompare :: "('a \<Rightarrow> 'a \<Rightarrow> int option) \<Rightarrow> 'a \<Rightarrow> 'a \<Rightarrow> int" where
  "SortCompare comparefn x y = (case comparefn x y of None \<Rightarrow> 0 | Some v \<Rightarrow> v)"

fun sort_insert :: "('a \<Rightarrow> 'a \<Rightarrow> int option) \<Rightarrow> 'a \<Rightarrow> 'a list \<Rightarrow> 'a list" where
  "sort_insert comparefn x [] = [x]"
| "sort_insert comparefn x (y # ys) =
     (if SortCompare comparefn x y \<le> 0 then x # y # ys else y # sort_insert comparefn x ys)"

definition array_sort :: "('a \<Rightarrow> 'a \<Rightarrow> int option) \<Rightarrow> 'a list \<Rightarrow> 'a list" where
  "array_sort comparefn xs = foldr (sort_insert comparefn) xs []"

text \<open>
  An array value is a reference. Inside \<^verbatim>\<open>filteredNews\<close> the variable \<^verbatim>\<open>news\<close> holds
  either the module's array \<^verbatim>\<open>MOCK_NEWS_DATA\<close> itself (line 13) or a new array made by
  \<^verbatim>\<open>Array.prototype.filter\<close> (lines 14 and 18). \<^verbatim>\<open>filter\<close> leaves its receiver as it is
  and returns a new array; \<^verbatim>\<open>sort\<close> sorts its receiver in place and returns it. The
  state is the content of \<^verbatim>\<open>MOCK_NEWS_DATA\<close>.
\<close>

datatype news_ref = MOCK_NEWS_DATA | New_Array "NewsArticle list"

definition deref :: "NewsArticle list \<Rightarrow> news_ref \<Rightarrow> NewsArticle list" where
  "deref store r = (case r of MOCK_NEWS_DATA \<Rightarrow> store | New_Array xs \<Rightarrow> xs)"

definition array_filter :: "(NewsArticle \<Rightarrow> bool) \<Rightarrow> NewsArticle list \<Rightarrow> news_ref \<Rightarrow> news_ref" where
  "array_filter p store r = New_Array (filter p (deref store r))"

definition array_sort_in_place ::
  "(NewsArticle \<Rightarrow> NewsArticle \<Rightarrow> int option) \<Rightarrow> NewsArticle list \<Rightarrow> news_ref
     \<Rightarrow> NewsArticle list \<times> news_ref" where
  "array_sort_in_place comparefn store r =
     (case r of
        MOCK_NEWS_DATA \<Rightarrow> (array_sort comparefn store, MOCK_NEWS_DATA)
      | New_Array xs \<Rightarrow> (store, New_Array (array_sort comparefn xs)))"

text \<open>
  \<^verbatim>\<open>filteredNews\<close> (lines 11 to 25), from the content of the store, the active channel
  and the search query to the content of the store afterwards and the returned array.
\<close>

definition filteredNews ::
  "(string \<Rightarrow> string) \<Rightarrow> (string \<Rightarrow> int option) \<Rightarrow> NewsArticle list \<Rightarrow> string \<Rightarrow> string
     \<Rightarrow> NewsArticle list \<times> news_ref" where
  "filteredNews toLowerCase getTime store activeChannel searchQuery =
     (let news = (if activeChannel = ''all'' then MOCK_NEWS_DATA
                  else array_filter (\<lambda>article. channelId article = activeChannel)
                         store MOCK_NEWS_DATA);
          news = (if trim searchQuery \<noteq> '''' then
                    (let lowercasedQuery = toLowerCase searchQuery
                     in array_filter
                          (\<lambda>article. str_includes (toLowerCase (title article)) lowercasedQuery \<or>
                                      str_includes (toLowerCase (content article)) lowercasedQuery)
                          store news)
                  else news)
      in array_sort_in_place (compareFn getTime) store news)"

text \<open>The articles the query shows, and the content of the store after the query.\<close>

definition query_result ::
  "(string \<Rightarrow> string) \<Rightarrow> (string \<Rightarrow> int option) \<Rightarrow> NewsArticle list \<Rightarrow> string \<Rightarrow> string
     \<Rightarrow> NewsArticle list" where
  "query_result toLowerCase getTime store c q =
     (case filteredNews toLowerCase getTime store c q of (store', r) \<Rightarrow> deref store' r)"

definition store_after ::
  "(string \<Rightarrow> string) \<Rightarrow> (string \<Rightarrow> int option) \<Rightarrow> NewsArticle list \<Rightarrow> string \<Rightarrow> string
     \<Rightarrow> NewsArticle list" where
  "store_after toLowerCase getTime store c q = fst (filteredNews toLowerCase getTime store c q)"

section \<open>Highlighting (components/NewsViewer.tsx, lines 27 to 43)\<close>

text \<open>
  \<^verbatim>\<open>renderHighlightedText\<close> builds a regular expression from the query, as it is typed,
  between a pair of parentheses, with the flags g and i, and splits the text with it. The
  pattern language is modelled for patterns made of pattern characters (every character
  but the fourteen syntax characters) and capturing groups; any other syntax character
  puts the pattern outside the model (\<open>Not_Modelled\<close>), about which nothing is said.
  The constructor throws a SyntaxError for a parenthesis without its partner.
\<close>

definition isSyntaxCharacter :: "char \<Rightarrow> bool" where
  "isSyntaxCharacter c = (c \<in> set (''^$.*+?()[]{}|'' @ [CHR 0x5C]))"

datatype node = Chr char | Group "node list"

datatype compiled = Regex "node list" | SyntaxError | Not_Modelled

text \<open>
  The parser keeps the nodes of the innermost open group, last first, in \<open>cur\<close> and the
  enclosing sequences in \<open>stack\<close>.
\<close>

fun parse_pattern :: "string \<Rightarrow> node list \<Rightarrow> node list list \<Rightarrow> compiled" where
  "parse_pattern [] cur [] = Regex (rev cur)"
| "parse_pattern [] cur (outer # stack) = SyntaxError"
| "parse_pattern (c # cs) cur stack =
     (if c = CHR ''('' then parse_pattern cs [] (cur # stack)
      else if c = CHR '')'' then
        (case stack of
           [] \<Rightarrow> SyntaxError
         | outer # stack' \<Rightarrow> parse_pattern cs (Group (rev cur) # outer) stack')
      else if isSyntaxCharacter c then Not_Modelled
      else parse_pattern cs (Chr c # cur) stack)"

definition RegExp :: "string \<Rightarrow> compiled" where
  "RegExp pattern = parse_pattern pattern [] []"

text \<open>
  With the flag i two characters match when their canonical forms (the upper case) are the
  same. The canonical form of an ASCII letter is its upper case, and no character outside
  ASCII has an ASCII canonical form, so an ASCII pattern character matches the bytes the
  runtime matches it with; the bytes of a character outside ASCII are compared as they
  are. A match at the start of \<open>s\<close> gives the matched text, the captures of the groups
  in the order of their opening parentheses, and the rest of \<open>s\<close>.
\<close>

definition canonicalize :: "char \<Rightarrow> char" where
  "canonicalize c =
     (case map_of (zip ''abcdefghijklmnopqrstuvwxyz'' ''ABCDEFGHIJKLMNOPQRSTUVWXYZ'') c of
        Some u \<Rightarrow> u
      | None \<Rightarrow> c)"

fun match_node :: "node \<Rightarrow> string \<Rightarrow> (string \<times> string list \<times> string) option"
  and match_nodes :: "node list \<Rightarrow> string \<Rightarrow> (string \<times> string list \<times> string) option" where
  "match_node (Chr c) [] = None"
| "match_node (Chr c) (x # xs) =
     (if canonicalize x = canonicalize c then Some ([x], [], xs) else None)"
| "match_node (Group ns) s =
     (case match_nodes ns s of
        None \<Rightarrow> None
      | Some (m, caps, rest) \<Rightarrow> Some (m, m # caps, rest))"
| "match_nodes [] s = Some ([], [], s)"
| "match_nodes (n # ns) s =
     (case match_node n s of
        None \<Rightarrow> None
      | Some (m1, caps1, rest1) \<Rightarrow>
          (case match_nodes ns rest1 of
             None \<Rightarrow> None
           | Some (m2, caps2, rest2) \<Rightarrow> Some (m1 @ m2, caps1 @ caps2, rest2)))"

text \<open>
  \<^verbatim>\<open>String.prototype.split\<close> with a regular expression, as the language defines it: \<open>q\<close>
  runs over the text; \<open>pending\<close> is the text between the end \<open>p\<close> of the last match and
  \<open>q\<close>. A match at \<open>q\<close> that ends at \<open>p\<close> (an empty match right after the last one) is
  skipped; any other match pushes the pending text and then every capture. The empty text
  splits into no part when the expression matches it and into one empty part otherwise.
\<close>

fun split_loop :: "node list \<Rightarrow> string \<Rightarrow> string \<Rightarrow> string list" where
  "split_loop re pending [] = [pending]"
| "split_loop re pending (c # cs) =
     (case match_nodes re (c # cs) of
        None \<Rightarrow> split_loop re (pending @ [c]) cs
      | Some (m, caps, rest) \<Rightarrow>
          if m = [] then
            (if pending = [] then split_loop re (pending @ [c]) cs
             else pending # caps @ split_loop re [] (c # cs))
          else pending # caps @ split_loop re [] (drop (length m) (c # cs)))"

definition split :: "string \<Rightarrow> node list \<Rightarrow> string list" where
  "split S re =
     (if S = [] then (case match_nodes re [] of None \<Rightarrow> [S] | Some z \<Rightarrow> [])
      else split_loop re [] S)"

text \<open>
  What the function returns: the text itself (line 28), or a span of parts, each plain or
  inside a \<^verbatim>\<open>mark\<close> element (lines 30 to 42).
\<close>

datatype segment = Plain string | Mark string

datatype rendered = Text string | Span "segment list"

datatype 'a completion = Returns 'a | Throws_SyntaxError | Outside_Model

definition renderHighlightedText ::
  "(string \<Rightarrow> string) \<Rightarrow> string \<Rightarrow> string \<Rightarrow> rendered completion" where
  "renderHighlightedText toLowerCase text query =
     (if query = [] then Returns (Text text)
      else
        (case RegExp (''('' @ query @ '')'') of
           SyntaxError \<Rightarrow> Throws_SyntaxError
         | Not_Modelled \<Rightarrow> Outside_Model
         | Regex re \<Rightarrow>
             (let parts = split text re
              in Returns (Span (map (\<lambda>part. if toLowerCase part = toLowerCase query
                                               then Mark part else Plain part) parts)))))"

text \<open>The text a rendering shows: its segments, one after the other.\<close>

fun segment_text :: "segment \<Rightarrow> string" where
  "segment_text (Plain s) = s"
| "segment_text (Mark s) = s"

fun rendered_text :: "rendered \<Rightarrow> string" where
  "rendered_text (Text s) = s"
| "rendered_text (Span segs) = concat (map segment_text segs)"

section \<open>Values shared by the transcription code\<close>

text \<open>
  A thrown value is an instance of \<^verbatim>\<open>Error\<close> with its message, or some other value,
  kept as what \<^verbatim>\<open>String\<close> makes of it. A string that may be absent is falsy when it is
  absent or empty.
\<close>

datatype thrown = Error string | Other_Value string

definition truthy :: "string option \<Rightarrow> bool" where
  "truthy v = (case v of None \<Rightarrow> False | Some s \<Rightarrow> s \<noteq> [])"

text \<open>
  \<^verbatim>\<open>parseInt(s, 10)\<close>: white space is skipped, then a sign, then the decimal digits
  are read; with no digit the result is NaN (\<open>None\<close>).
\<close>

definition isDigit :: "char \<Rightarrow> bool" where
  "isDigit c = (c \<in> set ''0123456789'')"

definition digit_value :: "char \<Rightarrow> int" where
  "digit_value c =
     (case map_of (zip ''0123456789'' [0, 1, 2, 3, 4, 5, 6, 7, 8, 9]) c of
        Some d \<Rightarrow> d
      | None \<Rightarrow> 0)"

definition decimal_value :: "string \<Rightarrow> int" where
  "decimal_value z = foldl (\<lambda>acc c. 10 * acc + digit_value c) 0 z"

definition parseInt :: "string \<Rightarrow> int option" where
  "parseInt s =
     (let s1 = trimStart s;
          negative = (case s1 of [] \<Rightarrow> False | c # cs \<Rightarrow> c = CHR ''-'');
          s2 = (case s1 of [] \<Rightarrow> [] | c # cs \<Rightarrow> if c = CHR ''-'' \<or> c = CHR ''+'' then cs else s1);
          z = takeWhile isDigit s2
      in if z = [] then None
         else Some (if negative then - decimal_value z else decimal_value z))"

text \<open>A comparison with NaN is false.\<close>

definition greater_than :: "int option \<Rightarrow> int \<Rightarrow> bool" where
  "greater_than v n = (case v of None \<Rightarrow> False | Some x \<Rightarrow> n < x)"

text \<open>
  The calls that leave the process, in the order they are made: the metadata request and
  the media download of the video library, the call of the transcription service, and
  a \<^verbatim>\<open>fetch\<close> of the browser.
\<close>

datatype format = Format nat

record gen_params =
  model :: string
  prompt :: string
  inline_data :: string
  inline_mimeType :: string

datatype fetch_body = Url_Body string | File_Body string string

datatype outbound =
    GetInfo string
  | Download string format
  | GenerateContent gen_params
  | Fetch string fetch_body

text \<open>
  Every call of the transcription service names the same model and carries a prompt and
  one inline part: the data in its text form and their MIME type.
\<close>

definition contents :: "string \<Rightarrow> string \<Rightarrow> string \<Rightarrow> gen_params" where
  "contents p data mime =
     \<lparr>model = ''gemini-2.5-flash'', prompt = p, inline_data = data, inline_mimeType = mime\<rparr>"

section \<open>The texts of the messages\<close>

text \<open>
  The messages of the source are Chinese; each is given here as the bytes of its UTF-8
  form, with what it says.
\<close>

text \<open>Api/transcribe-file.ts line 16: the file data or the MIME type is missing.\<close>

definition MSG_MISSING_FILE_DATA :: string where
  "MSG_MISSING_FILE_DATA =
     [CHR 0xE9, CHR 0x81, CHR 0xBA, CHR 0xE5, CHR 0xA4, CHR 0xB1, CHR 0xE6, CHR 0xAA, CHR 0x94,
     CHR 0xE6, CHR 0xA1, CHR 0x88, CHR 0xE8, CHR 0xB3, CHR 0x87, CHR 0xE6, CHR 0x96, CHR 0x99,
     CHR 0xE6, CHR 0x88, CHR 0x96] @ '' MIME '' @ [CHR 0xE9, CHR 0xA1, CHR 0x9E, CHR 0xE5,
     CHR 0x9E, CHR 0x8B, CHR 0xE3, CHR 0x80, CHR 0x82]"

text \<open>Api/transcribe-file.ts line 32: the instruction prompt.\<close>

definition PROMPT_FILE :: string where
  "PROMPT_FILE =
     [CHR 0xE9, CHR 0x80, CHR 0x99, CHR 0xE6, CHR 0x98, CHR 0xAF, CHR 0xE4, CHR 0xB8, CHR 0x80,
     CHR 0xE6, CHR 0xAE, CHR 0xB5, CHR 0xE5, CHR 0xBD, CHR 0xB1, CHR 0xE9, CHR 0x9F, CHR 0xB3,
     CHR 0xE6, CHR 0xAA, CHR 0x94, CHR 0xE6, CHR 0xA1, CHR 0x88, CHR 0xEF, CHR 0xBC, CHR 0x8C,
     CHR 0xE8, CHR 0xAB, CHR 0x8B, CHR 0xE5, CHR 0xB0, CHR 0x87, CHR 0xE5, CHR 0x85, CHR 0xB6,
     CHR 0xE5, CHR 0x85, CHR 0xA7, CHR 0xE5, CHR 0xAE, CHR 0xB9, CHR 0xE5, CHR 0xAE, CHR 0x8C,
     CHR 0xE6, CHR 0x95, CHR 0xB4, CHR 0xE5, CHR 0x9C, CHR 0xB0, CHR 0xE8, CHR 0xBD, CHR 0x89,
     CHR 0xE9, CHR 0x8C, CHR 0x84, CHR 0xE7, CHR 0x82, CHR 0xBA, CHR 0xE7, CHR 0xB9, CHR 0x81,
     CHR 0xE9, CHR 0xAB, CHR 0x94, CHR 0xE4, CHR 0xB8, CHR 0xAD, CHR 0xE6, CHR 0x96, CHR 0x87,
     CHR 0xE7, CHR 0x9A, CHR 0x84, CHR 0xE9, CHR 0x80, CHR 0x90, CHR 0xE5, CHR 0xAD, CHR 0x97,
     CHR 0xE7, CHR 0xA8, CHR 0xBF, CHR 0xE3, CHR 0x80, CHR 0x82, CHR 0xE8, CHR 0xAB, CHR 0x8B,
     CHR 0xE7, CHR 0x9B, CHR 0xA1, CHR 0xE5, CHR 0x8F, CHR 0xAF, CHR 0xE8, CHR 0x83, CHR 0xBD,
     CHR 0xE5, CHR 0x8D, CHR 0x80, CHR 0xE5, CHR 0x88, CHR 0x86, CHR 0xE4, CHR 0xB8, CHR 0x8D,
     CHR 0xE5, CHR 0x90, CHR 0x8C, CHR 0xE7, CHR 0x9A, CHR 0x84, CHR 0xE8, CHR 0xAA, CHR 0xAA,
     CHR 0xE8, CHR 0xA9, CHR 0xB1, CHR 0xE8, CHR 0x80, CHR 0x85, CHR 0xEF, CHR 0xBC, CHR 0x8C,
     CHR 0xE4, CHR 0xBE, CHR 0x8B, CHR 0xE5, CHR 0xA6, CHR 0x82, CHR 0xE4, CHR 0xBD, CHR 0xBF,
     CHR 0xE7, CHR 0x94, CHR 0xA8] @ '' '' @ [CHR 0x22, CHR 0xE7, CHR 0x99, CHR 0xBC, CHR 0xE8,
     CHR 0xA8, CHR 0x80, CHR 0xE8, CHR 0x80, CHR 0x85] @ ''1'' @ [CHR 0x22, CHR 0xE3, CHR 0x80,
     CHR 0x81, CHR 0x22, CHR 0xE7, CHR 0x99, CHR 0xBC, CHR 0xE8, CHR 0xA8, CHR 0x80, CHR 0xE8,
     CHR 0x80, CHR 0x85] @ ''2'' @ [CHR 0x22] @ '' '' @ [CHR 0xE7, CHR 0xAD, CHR 0x89, CHR 0xE6,
     CHR 0xA8, CHR 0x99, CHR 0xE7, CHR 0xB1, CHR 0xA4, CHR 0xE3, CHR 0x80, CHR 0x82]"

text \<open>Api/transcribe-file.ts line 48 and api/transcribe-youtube.ts line 78: the API key of the server is set up wrongly.\<close>

definition MSG_API_KEY_CONFIG :: string where
  "MSG_API_KEY_CONFIG =
     [CHR 0xE4, CHR 0xBC, CHR 0xBA, CHR 0xE6, CHR 0x9C, CHR 0x8D, CHR 0xE5, CHR 0x99, CHR 0xA8]
     @ '' API '' @ [CHR 0xE9, CHR 0x87, CHR 0x91, CHR 0xE9, CHR 0x91, CHR 0xB0, CHR 0xE8,
     CHR 0xA8, CHR 0xAD, CHR 0xE5, CHR 0xAE, CHR 0x9A, CHR 0xE9, CHR 0x8C, CHR 0xAF, CHR 0xE8,
     CHR 0xAA, CHR 0xA4, CHR 0xE3, CHR 0x80, CHR 0x82]"

text \<open>Api/transcribe-file.ts line 53: the file is too large; upload one under 4.5MB.\<close>

definition MSG_FILE_TOO_LARGE :: string where
  "MSG_FILE_TOO_LARGE =
     [CHR 0xE6, CHR 0xAA, CHR 0x94, CHR 0xE6, CHR 0xA1, CHR 0x88, CHR 0xE9, CHR 0x81, CHR 0x8E,
     CHR 0xE5, CHR 0xA4, CHR 0xA7, CHR 0xEF, CHR 0xBC, CHR 0x8C, CHR 0xE7, CHR 0x84, CHR 0xA1,
     CHR 0xE6, CHR 0xB3, CHR 0x95, CHR 0xE8, CHR 0x99, CHR 0x95, CHR 0xE7, CHR 0x90, CHR 0x86,
     CHR 0xE3, CHR 0x80, CHR 0x82, CHR 0xE8, CHR 0xAB, CHR 0x8B, CHR 0xE4, CHR 0xB8, CHR 0x8A,
     CHR 0xE5, CHR 0x82, CHR 0xB3, CHR 0xE5, CHR 0xB0, CHR 0x8F, CHR 0xE6, CHR 0x96, CHR 0xBC]
     @ '' 4.5MB '' @ [CHR 0xE7, CHR 0x9A, CHR 0x84, CHR 0xE6, CHR 0xAA, CHR 0x94, CHR 0xE6,
     CHR 0xA1, CHR 0x88, CHR 0xE3, CHR 0x80, CHR 0x82]"

text \<open>Api/transcribe-file.ts line 56: an error occurred while processing the file.\<close>

definition MSG_FILE_FAILED :: string where
  "MSG_FILE_FAILED =
     [CHR 0xE8, CHR 0x99, CHR 0x95, CHR 0xE7, CHR 0x90, CHR 0x86, CHR 0xE6, CHR 0xAA, CHR 0x94,
     CHR 0xE6, CHR 0xA1, CHR 0x88, CHR 0xE6, CHR 0x99, CHR 0x82, CHR 0xE7, CHR 0x99, CHR 0xBC,
     CHR 0xE7, CHR 0x94, CHR 0x9F, CHR 0xE9, CHR 0x8C, CHR 0xAF, CHR 0xE8, CHR 0xAA, CHR 0xA4,
     CHR 0xE3, CHR 0x80, CHR 0x82]"

text \<open>Api/transcribe-youtube.ts line 25: the YouTube link is invalid or missing.\<close>

definition MSG_INVALID_URL :: string where
  "MSG_INVALID_URL =
     [CHR 0xE7, CHR 0x84, CHR 0xA1, CHR 0xE6, CHR 0x95, CHR 0x88, CHR 0xE6, CHR 0x88, CHR 0x96,
     CHR 0xE9, CHR 0x81, CHR 0xBA, CHR 0xE5, CHR 0xA4, CHR 0xB1] @ '' YouTube '' @ [CHR 0xE9,
     CHR 0x80, CHR 0xA3, CHR 0xE7, CHR 0xB5, CHR 0x90]"

text \<open>Api/transcribe-youtube.ts line 33, the text before the number: the video is longer than.\<close>

definition MSG_DURATION_BEFORE :: string where
  "MSG_DURATION_BEFORE =
     [CHR 0xE5, CHR 0xBD, CHR 0xB1, CHR 0xE7, CHR 0x89, CHR 0x87, CHR 0xE9, CHR 0x95, CHR 0xB7,
     CHR 0xE5, CHR 0xBA, CHR 0xA6, CHR 0xE8, CHR 0xB6, CHR 0x85, CHR 0xE9, CHR 0x81, CHR 0x8E]
     @ '' ''"

text \<open>Api/transcribe-youtube.ts line 33, the text after the number: minutes, the limit.\<close>

definition MSG_DURATION_AFTER :: string where
  "MSG_DURATION_AFTER =
     '' '' @ [CHR 0xE5, CHR 0x88, CHR 0x86, CHR 0xE9, CHR 0x90, CHR 0x98, CHR 0xE9, CHR 0x99,
     CHR 0x90, CHR 0xE5, CHR 0x88, CHR 0xB6, CHR 0xE3, CHR 0x80, CHR 0x82]"

text \<open>Api/transcribe-youtube.ts line 42: no audio format was found for this video.\<close>

definition MSG_NO_AUDIO_FORMAT :: string where
  "MSG_NO_AUDIO_FORMAT =
     [CHR 0xE6, CHR 0x89, CHR 0xBE, CHR 0xE4, CHR 0xB8, CHR 0x8D, CHR 0xE5, CHR 0x88, CHR 0xB0,
     CHR 0xE6, CHR 0xAD, CHR 0xA4, CHR 0xE5, CHR 0xBD, CHR 0xB1, CHR 0xE7, CHR 0x89, CHR 0x87,
     CHR 0xE7, CHR 0x9A, CHR 0x84, CHR 0xE9, CHR 0x9F, CHR 0xB3, CHR 0xE8, CHR 0xA8, CHR 0x8A,
     CHR 0xE6, CHR 0xA0, CHR 0xBC, CHR 0xE5, CHR 0xBC, CHR 0x8F, CHR 0xE3, CHR 0x80, CHR 0x82]"

text \<open>Api/transcribe-youtube.ts line 62: the instruction prompt.\<close>

definition PROMPT_AUDIO :: string where
  "PROMPT_AUDIO =
     [CHR 0xE9, CHR 0x80, CHR 0x99, CHR 0xE6, CHR 0x98, CHR 0xAF, CHR 0xE4, CHR 0xB8, CHR 0x80,
     CHR 0xE6, CHR 0xAE, CHR 0xB5, CHR 0xE9, CHR 0x9F, CHR 0xB3, CHR 0xE8, CHR 0xA8, CHR 0x8A,
     CHR 0xEF, CHR 0xBC, CHR 0x8C, CHR 0xE8, CHR 0xAB, CHR 0x8B, CHR 0xE5, CHR 0xB0, CHR 0x87,
     CHR 0xE5, CHR 0x85, CHR 0xB6, CHR 0xE5, CHR 0x85, CHR 0xA7, CHR 0xE5, CHR 0xAE, CHR 0xB9,
     CHR 0xE5, CHR 0xAE, CHR 0x8C, CHR 0xE6, CHR 0x95, CHR 0xB4, CHR 0xE5, CHR 0x9C, CHR 0xB0,
     CHR 0xE8, CHR 0xBD, CHR 0x89, CHR 0xE9, CHR 0x8C, CHR 0x84, CHR 0xE7, CHR 0x82, CHR 0xBA,
     CHR 0xE7, CHR 0xB9, CHR 0x81, CHR 0xE9, CHR 0xAB, CHR 0x94, CHR 0xE4, CHR 0xB8, CHR 0xAD,
     CHR 0xE6, CHR 0x96, CHR 0x87, CHR 0xE7, CHR 0x9A, CHR 0x84, CHR 0xE9, CHR 0x80, CHR 0x90,
     CHR 0xE5, CHR 0xAD, CHR 0x97, CHR 0xE7, CHR 0xA8, CHR 0xBF, CHR 0xE3, CHR 0x80, CHR 0x82,
     CHR 0xE8, CHR 0xAB, CHR 0x8B, CHR 0xE7, CHR 0x9B, CHR 0xA1, CHR 0xE5, CHR 0x8F, CHR 0xAF,
     CHR 0xE8, CHR 0x83, CHR 0xBD, CHR 0xE5, CHR 0x8D, CHR 0x80, CHR 0xE5, CHR 0x88, CHR 0x86,
     CHR 0xE4, CHR 0xB8, CHR 0x8D, CHR 0xE5, CHR 0x90, CHR 0x8C, CHR 0xE7, CHR 0x9A, CHR 0x84,
     CHR 0xE8, CHR 0xAA, CHR 0xAA, CHR 0xE8, CHR 0xA9, CHR 0xB1, CHR 0xE8, CHR 0x80, CHR 0x85,
     CHR 0xEF, CHR 0xBC, CHR 0x8C, CHR 0xE4, CHR 0xBE, CHR 0x8B, CHR 0xE5, CHR 0xA6, CHR 0x82,
     CHR 0xE4, CHR 0xBD, CHR 0xBF, CHR 0xE7, CHR 0x94, CHR 0xA8] @ '' '' @ [CHR 0x22, CHR 0xE7,
     CHR 0x99, CHR 0xBC, CHR 0xE8, CHR 0xA8, CHR 0x80, CHR 0xE8, CHR 0x80, CHR 0x85] @ ''1''
     @ [CHR 0x22, CHR 0xE3, CHR 0x80, CHR 0x81, CHR 0x22, CHR 0xE7, CHR 0x99, CHR 0xBC, CHR 0xE8,
     CHR 0xA8, CHR 0x80, CHR 0xE8, CHR 0x80, CHR 0x85] @ ''2'' @ [CHR 0x22] @ '' '' @ [CHR 0xE7,
     CHR 0xAD, CHR 0x89, CHR 0xE6, CHR 0xA8, CHR 0x99, CHR 0xE7, CHR 0xB1, CHR 0xA4, CHR 0xE3,
     CHR 0x80, CHR 0x82]"

text \<open>Api/transcribe-youtube.ts line 82: the video file is too large to process.\<close>

definition MSG_VIDEO_TOO_LARGE :: string where
  "MSG_VIDEO_TOO_LARGE =
     [CHR 0xE5, CHR 0xBD, CHR 0xB1, CHR 0xE7, CHR 0x89, CHR 0x87, CHR 0xE6, CHR 0xAA, CHR 0x94,
     CHR 0xE6, CHR 0xA1, CHR 0x88, CHR 0xE9, CHR 0x81, CHR 0x8E, CHR 0xE5, CHR 0xA4, CHR 0xA7,
     CHR 0xEF, CHR 0xBC, CHR 0x8C, CHR 0xE7, CHR 0x84, CHR 0xA1, CHR 0xE6, CHR 0xB3, CHR 0x95,
     CHR 0xE8, CHR 0x99, CHR 0x95, CHR 0xE7, CHR 0x90, CHR 0x86, CHR 0xE3, CHR 0x80, CHR 0x82]"

text \<open>Api/transcribe-youtube.ts line 85: an error occurred while processing the YouTube video.\<close>

definition MSG_YOUTUBE_FAILED :: string where
  "MSG_YOUTUBE_FAILED =
     [CHR 0xE8, CHR 0x99, CHR 0x95, CHR 0xE7, CHR 0x90, CHR 0x86] @ '' YouTube '' @ [CHR 0xE5,
     CHR 0xBD, CHR 0xB1, CHR 0xE7, CHR 0x89, CHR 0x87, CHR 0xE6, CHR 0x99, CHR 0x82, CHR 0xE7,
     CHR 0x99, CHR 0xBC, CHR 0xE7, CHR 0x94, CHR 0x9F, CHR 0xE9, CHR 0x8C, CHR 0xAF, CHR 0xE8,
     CHR 0xAA, CHR 0xA4, CHR 0xE3, CHR 0x80, CHR 0x82]"

text \<open>Both transcriber components (lines 40 and 50): give a video link or upload a file.\<close>

definition MSG_NEED_INPUT :: string where
  "MSG_NEED_INPUT =
     [CHR 0xE8, CHR 0xAB, CHR 0x8B, CHR 0xE6, CHR 0x8F, CHR 0x90, CHR 0xE4, CHR 0xBE, CHR 0x9B,
     CHR 0xE5, CHR 0xBD, CHR 0xB1, CHR 0xE7, CHR 0x89, CHR 0x87, CHR 0xE9, CHR 0x80, CHR 0xA3,
     CHR 0xE7, CHR 0xB5, CHR 0x90, CHR 0xE6, CHR 0x88, CHR 0x96, CHR 0xE4, CHR 0xB8, CHR 0x8A,
     CHR 0xE5, CHR 0x82, CHR 0xB3, CHR 0xE6, CHR 0xAA, CHR 0x94, CHR 0xE6, CHR 0xA1, CHR 0x88,
     CHR 0xE3, CHR 0x80, CHR 0x82]"

text \<open>Part_000 line 60: select a file.\<close>

definition MSG_SELECT_FILE :: string where
  "MSG_SELECT_FILE =
     [CHR 0xE8, CHR 0xAB, CHR 0x8B, CHR 0xE9, CHR 0x81, CHR 0xB8, CHR 0xE6, CHR 0x93, CHR 0x87,
     CHR 0xE4, CHR 0xB8, CHR 0x80, CHR 0xE5, CHR 0x80, CHR 0x8B, CHR 0xE6, CHR 0xAA, CHR 0x94,
     CHR 0xE6, CHR 0xA1, CHR 0x88, CHR 0xE3, CHR 0x80, CHR 0x82]"

text \<open>Part_000 line 64: the file is over the 4.5MB limit and cannot be uploaded.\<close>

definition MSG_SIZE_LIMIT :: string where
  "MSG_SIZE_LIMIT =
     [CHR 0xE6, CHR 0xAA, CHR 0x94, CHR 0xE6, CHR 0xA1, CHR 0x88, CHR 0xE5, CHR 0xA4, CHR 0xA7,
     CHR 0xE5, CHR 0xB0, CHR 0x8F, CHR 0xE8, CHR 0xB6, CHR 0x85, CHR 0xE9, CHR 0x81, CHR 0x8E]
     @ '' 4.5MB '' @ [CHR 0xE9, CHR 0x99, CHR 0x90, CHR 0xE5, CHR 0x88, CHR 0xB6, CHR 0xEF,
     CHR 0xBC, CHR 0x8C, CHR 0xE7, CHR 0x84, CHR 0xA1, CHR 0xE6, CHR 0xB3, CHR 0x95, CHR 0xE4,
     CHR 0xB8, CHR 0x8A, CHR 0xE5, CHR 0x82, CHR 0xB3, CHR 0xE3, CHR 0x80, CHR 0x82]"

text \<open>Part_000 line 77: an error occurred while getting the transcript from the server.\<close>

definition MSG_SERVER_FAILED :: string where
  "MSG_SERVER_FAILED =
     [CHR 0xE5, CHR 0xBE, CHR 0x9E, CHR 0xE4, CHR 0xBC, CHR 0xBA, CHR 0xE6, CHR 0x9C, CHR 0x8D,
     CHR 0xE5, CHR 0x99, CHR 0xA8, CHR 0xE5, CHR 0x8F, CHR 0x96, CHR 0xE5, CHR 0xBE, CHR 0x97,
     CHR 0xE9, CHR 0x80, CHR 0x90, CHR 0xE5, CHR 0xAD, CHR 0x97, CHR 0xE7, CHR 0xA8, CHR 0xBF,
     CHR 0xE6, CHR 0x99, CHR 0x82, CHR 0xE7, CHR 0x99, CHR 0xBC, CHR 0xE7, CHR 0x94, CHR 0x9F,
     CHR 0xE9, CHR 0x8C, CHR 0xAF, CHR 0xE8, CHR 0xAA, CHR 0xA4, CHR 0xE3, CHR 0x80, CHR 0x82]"

text \<open>Part_000 line 85: the backend service cannot be reached.\<close>

definition MSG_UNREACHABLE :: string where
  "MSG_UNREACHABLE =
     [CHR 0xE7, CHR 0x84, CHR 0xA1, CHR 0xE6, CHR 0xB3, CHR 0x95, CHR 0xE9, CHR 0x80, CHR 0xA3,
     CHR 0xE6, CHR 0x8E, CHR 0xA5, CHR 0xE5, CHR 0x88, CHR 0xB0, CHR 0xE5, CHR 0xBE, CHR 0x8C,
     CHR 0xE7, CHR 0xAB, CHR 0xAF, CHR 0xE6, CHR 0x9C, CHR 0x8D, CHR 0xE5, CHR 0x8B, CHR 0x99,
     CHR 0xEF, CHR 0xBC, CHR 0x8C, CHR 0xE8, CHR 0xAB, CHR 0x8B, CHR 0xE6, CHR 0xAA, CHR 0xA2,
     CHR 0xE6, CHR 0x9F, CHR 0xA5, CHR 0xE7, CHR 0xB6, CHR 0xB2, CHR 0xE8, CHR 0xB7, CHR 0xAF,
     CHR 0xE9, CHR 0x80, CHR 0xA3, CHR 0xE7, CHR 0xB7, CHR 0x9A, CHR 0xE6, CHR 0x88, CHR 0x96,
     CHR 0xE7, CHR 0xA8, CHR 0x8D, CHR 0xE5, CHR 0xBE, CHR 0x8C, CHR 0xE5, CHR 0x86, CHR 0x8D,
     CHR 0xE8, CHR 0xA9, CHR 0xA6, CHR 0xE3, CHR 0x80, CHR 0x82]"

text \<open>Part_000 line 87, the text before the message: the conversion failed.\<close>

definition MSG_FAILED_PREFIX :: string where
  "MSG_FAILED_PREFIX =
     [CHR 0xE8, CHR 0xBD, CHR 0x89, CHR 0xE6, CHR 0x8F, CHR 0x9B, CHR 0xE5, CHR 0xA4, CHR 0xB1,
     CHR 0xE6, CHR 0x95, CHR 0x97, CHR 0xEF, CHR 0xBC, CHR 0x9A]"

text \<open>Components/VideoTranscriber.tsx line 59: converting a link needs a backend server and is not offered; use the file upload.\<close>

definition MSG_URL_UNSUPPORTED :: string where
  "MSG_URL_UNSUPPORTED =
     ''YouTube '' @ [CHR 0xE9, CHR 0x80, CHR 0xA3, CHR 0xE7, CHR 0xB5, CHR 0x90, CHR 0xE8,
     CHR 0xBD, CHR 0x89, CHR 0xE6, CHR 0x8F, CHR 0x9B, CHR 0xE5, CHR 0x8A, CHR 0x9F, CHR 0xE8,
     CHR 0x83, CHR 0xBD, CHR 0xE9, CHR 0x9C, CHR 0x80, CHR 0xE8, CHR 0xA6, CHR 0x81, CHR 0xE5,
     CHR 0xBE, CHR 0x8C, CHR 0xE7, CHR 0xAB, CHR 0xAF, CHR 0xE4, CHR 0xBC, CHR 0xBA, CHR 0xE6,
     CHR 0x9C, CHR 0x8D, CHR 0xE5, CHR 0x99, CHR 0xA8, CHR 0xE6, CHR 0x94, CHR 0xAF, CHR 0xE6,
     CHR 0x8F, CHR 0xB4, CHR 0xEF, CHR 0xBC, CHR 0x8C, CHR 0xE7, CHR 0x9B, CHR 0xAE, CHR 0xE5,
     CHR 0x89, CHR 0x8D, CHR 0xE6, CHR 0x9A, CHR 0xAB, CHR 0xE4, CHR 0xB8, CHR 0x8D, CHR 0xE6,
     CHR 0x8F, CHR 0x90, CHR 0xE4, CHR 0xBE, CHR 0x9B, CHR 0xE3, CHR 0x80, CHR 0x82, CHR 0xE8,
     CHR 0xAB, CHR 0x8B, CHR 0xE4, CHR 0xBD, CHR 0xBF, CHR 0xE7, CHR 0x94, CHR 0xA8, CHR 0xE6,
     CHR 0xAA, CHR 0x94, CHR 0xE6, CHR 0xA1, CHR 0x88, CHR 0xE4, CHR 0xB8, CHR 0x8A, CHR 0xE5,
     CHR 0x82, CHR 0xB3, CHR 0xE5, CHR 0x8A, CHR 0x9F, CHR 0xE8, CHR 0x83, CHR 0xBD, CHR 0xE3,
     CHR 0x80, CHR 0x82]"

text \<open>Components/VideoTranscriber.tsx line 69: the instruction prompt.\<close>

definition PROMPT_VIDEO :: string where
  "PROMPT_VIDEO =
     [CHR 0xE8, CHR 0xAB, CHR 0x8B, CHR 0xE5, CHR 0xB0, CHR 0x87, CHR 0xE9, CHR 0x80, CHR 0x99,
     CHR 0xE6, CHR 0xAE, CHR 0xB5, CHR 0xE5, CHR 0xBD, CHR 0xB1, CHR 0xE7, CHR 0x89, CHR 0x87,
     CHR 0xE8, CHR 0xBD, CHR 0x89, CHR 0xE7, CHR 0x82, CHR 0xBA, CHR 0xE9, CHR 0x80, CHR 0x90,
     CHR 0xE5, CHR 0xAD, CHR 0x97, CHR 0xE7, CHR 0xA8, CHR 0xBF, CHR 0xE3, CHR 0x80, CHR 0x82,
     CHR 0xE5, CHR 0xA6, CHR 0x82, CHR 0xE6, CHR 0x9E, CHR 0x9C, CHR 0xE5, CHR 0x8F, CHR 0xAF,
     CHR 0xE8, CHR 0x83, CHR 0xBD, CHR 0xEF, CHR 0xBC, CHR 0x8C, CHR 0xE8, CHR 0xAB, CHR 0x8B,
     CHR 0xE6, CHR 0xA8, CHR 0x99, CHR 0xE7, CHR 0xA4, CHR 0xBA, CHR 0xE5, CHR 0x87, CHR 0xBA,
     CHR 0xE4, CHR 0xB8, CHR 0x8D, CHR 0xE5, CHR 0x90, CHR 0x8C, CHR 0xE7, CHR 0x9A, CHR 0x84,
     CHR 0xE7, CHR 0x99, CHR 0xBC, CHR 0xE8, CHR 0xA8, CHR 0x80, CHR 0xE8, CHR 0x80, CHR 0x85,
     CHR 0xEF, CHR 0xBC, CHR 0x88, CHR 0xE4, CHR 0xBE, CHR 0x8B, CHR 0xE5, CHR 0xA6, CHR 0x82,
     CHR 0xEF, CHR 0xBC, CHR 0x9A, CHR 0xE7, CHR 0x99, CHR 0xBC, CHR 0xE8, CHR 0xA8, CHR 0x80,
     CHR 0xE8, CHR 0x80, CHR 0x85] @ ''A'' @ [CHR 0xE3, CHR 0x80, CHR 0x81, CHR 0xE7, CHR 0x99,
     CHR 0xBC, CHR 0xE8, CHR 0xA8, CHR 0x80, CHR 0xE8, CHR 0x80, CHR 0x85] @ ''B'' @ [CHR 0xEF,
     CHR 0xBC, CHR 0x89, CHR 0xE3, CHR 0x80, CHR 0x82]"

text \<open>Components/VideoTranscriber.tsx line 82: the conversion failed, the API key is invalid or not set.\<close>

definition MSG_CLIENT_API_KEY :: string where
  "MSG_CLIENT_API_KEY =
     [CHR 0xE8, CHR 0xBD, CHR 0x89, CHR 0xE6, CHR 0x8F, CHR 0x9B, CHR 0xE5, CHR 0xA4, CHR 0xB1,
     CHR 0xE6, CHR 0x95, CHR 0x97, CHR 0xEF, CHR 0xBC, CHR 0x9A] @ ''API '' @ [CHR 0xE9,
     CHR 0x87, CHR 0x91, CHR 0xE9, CHR 0x91, CHR 0xB0, CHR 0xE7, CHR 0x84, CHR 0xA1, CHR 0xE6,
     CHR 0x95, CHR 0x88, CHR 0xE6, CHR 0x88, CHR 0x96, CHR 0xE6, CHR 0x9C, CHR 0xAA, CHR 0xE8,
     CHR 0xA8, CHR 0xAD, CHR 0xE5, CHR 0xAE, CHR 0x9A, CHR 0xE3, CHR 0x80, CHR 0x82, CHR 0xE8,
     CHR 0xAB, CHR 0x8B, CHR 0xE6, CHR 0xAA, CHR 0xA2, CHR 0xE6, CHR 0x9F, CHR 0xA5, CHR 0xE6,
     CHR 0x82, CHR 0xA8, CHR 0xE5, CHR 0x9C, CHR 0xA8] @ '' Vercel '' @ [CHR 0xE4, CHR 0xB8,
     CHR 0x8A, CHR 0xE7, CHR 0x9A, CHR 0x84, CHR 0xE7, CHR 0x92, CHR 0xB0, CHR 0xE5, CHR 0xA2,
     CHR 0x83, CHR 0xE8, CHR 0xAE, CHR 0x8A, CHR 0xE6, CHR 0x95, CHR 0xB8, CHR 0xE8, CHR 0xA8,
     CHR 0xAD, CHR 0xE5, CHR 0xAE, CHR 0x9A, CHR 0xE3, CHR 0x80, CHR 0x82]"

text \<open>Components/VideoTranscriber.tsx line 84: the conversion failed, the format may be unsupported or the file too large.\<close>

definition MSG_CLIENT_FAILED :: string where
  "MSG_CLIENT_FAILED =
     [CHR 0xE8, CHR 0xBD, CHR 0x89, CHR 0xE6, CHR 0x8F, CHR 0x9B, CHR 0xE5, CHR 0xA4, CHR 0xB1,
     CHR 0xE6, CHR 0x95, CHR 0x97, CHR 0xEF, CHR 0xBC, CHR 0x8C, CHR 0xE5, CHR 0x8F, CHR 0xAF,
     CHR 0xE8, CHR 0x83, CHR 0xBD, CHR 0xE5, CHR 0xBD, CHR 0xB1, CHR 0xE7, CHR 0x89, CHR 0x87,
     CHR 0xE6, CHR 0xA0, CHR 0xBC, CHR 0xE5, CHR 0xBC, CHR 0x8F, CHR 0xE4, CHR 0xB8, CHR 0x8D,
     CHR 0xE6, CHR 0x94, CHR 0xAF, CHR 0xE6, CHR 0x8F, CHR 0xB4, CHR 0xE6, CHR 0x88, CHR 0x96,
     CHR 0xE6, CHR 0xAA, CHR 0x94, CHR 0xE6, CHR 0xA1, CHR 0x88, CHR 0xE9, CHR 0x81, CHR 0x8E,
     CHR 0xE5, CHR 0xA4, CHR 0xA7, CHR 0xEF, CHR 0xBC, CHR 0x8C, CHR 0xE8, CHR 0xAB, CHR 0x8B,
     CHR 0xE7, CHR 0xA8, CHR 0x8D, CHR 0xE5, CHR 0xBE, CHR 0x8C, CHR 0xE5, CHR 0x86, CHR 0x8D,
     CHR 0xE8, CHR 0xA9, CHR 0xA6, CHR 0xE3, CHR 0x80, CHR 0x82]"

definition MSG_DURATION :: string where
  "MSG_DURATION = MSG_DURATION_BEFORE @ ''10'' @ MSG_DURATION_AFTER"

section \<open>The two request handlers (api/transcribe-file.ts, api/transcribe-youtube.ts)\<close>

text \<open>
  A request has a method (the field \<open>http_method\<close>) and a JSON object as its body, whose
  fields are strings or absent.
  A response has a status, the \<^verbatim>\<open>Allow\<close> header when it was set, and a JSON body.
\<close>

record request =
  http_method :: string

record file_request = request +
  fileData :: "string option"
  mimeType :: "string option"

record url_request = request +
  url :: "string option"

datatype json =
    Error_Json string
  | Error_Details_Json string string
  | Transcript_Json string

record response =
  status :: nat
  allow :: "string option"
  body :: json

definition json_response :: "nat \<Rightarrow> json \<Rightarrow> response" where
  "json_response code b = \<lparr>status = code, allow = None, body = b\<rparr>"

definition method_not_allowed :: response where
  "method_not_allowed =
     \<lparr>status = 405, allow = Some ''POST'', body = Error_Json ''Method Not Allowed''\<rparr>"

text \<open>
  What a handler finds around it: the variable \<^verbatim>\<open>API_KEY\<close> of the process and the
  transcription service, whose call returns the text of the response or throws.
\<close>

record ai_env =
  API_KEY :: "string option"
  generateContent :: "gen_params \<Rightarrow> thrown + string"

definition errorMessage_of :: "thrown \<Rightarrow> string" where
  "errorMessage_of e =
     (case e of Error m \<Rightarrow> m | Other_Value v \<Rightarrow> ''An unknown error occurred'')"

subsection \<open>transcribe-file\<close>

text \<open>The \<^verbatim>\<open>catch\<close> block, lines 43 to 57.\<close>

definition catch_file :: "(string \<Rightarrow> string) \<Rightarrow> thrown \<Rightarrow> response" where
  "catch_file toLowerCase e =
     (let errorMessage = errorMessage_of e
      in if str_includes (toLowerCase errorMessage) ''api key'' \<or>
            str_includes errorMessage ''API_KEY''
         then json_response 500 (Error_Json MSG_API_KEY_CONFIG)
         else if str_includes (toLowerCase errorMessage) ''resource has been exhausted'' \<or>
                 str_includes (toLowerCase errorMessage) ''request entity too large''
         then json_response 413 (Error_Json MSG_FILE_TOO_LARGE)
         else json_response 500 (Error_Details_Json MSG_FILE_FAILED errorMessage))"

text \<open>The \<^verbatim>\<open>try\<close> block, lines 19 to 42: a response, or the value thrown, with the calls made.\<close>

definition try_file :: "ai_env \<Rightarrow> string \<Rightarrow> string \<Rightarrow> (thrown + response) \<times> outbound list" where
  "try_file env data mime =
     (if \<not> truthy (API_KEY env)
      then (Inl (Error ''API_KEY environment variable is not set.''), [])
      else
        (let params = contents PROMPT_FILE data mime
         in case generateContent env params of
              Inl e \<Rightarrow> (Inl e, [GenerateContent params])
            | Inr text \<Rightarrow>
                (Inr (json_response 200 (Transcript_Json text)), [GenerateContent params])))"

definition handler_file ::
  "(string \<Rightarrow> string) \<Rightarrow> ai_env \<Rightarrow> file_request \<Rightarrow> response \<times> outbound list" where
  "handler_file toLowerCase env req =
     (if http_method req \<noteq> ''POST'' then (method_not_allowed, [])
      else
        (case (fileData req, mimeType req) of
           (Some data, Some mime) \<Rightarrow>
             if data = [] \<or> mime = []
             then (json_response 400 (Error_Json MSG_MISSING_FILE_DATA), [])
             else
               (case try_file env data mime of
                  (Inl e, calls) \<Rightarrow> (catch_file toLowerCase e, calls)
                | (Inr res, calls) \<Rightarrow> (res, calls))
         | _ \<Rightarrow> (json_response 400 (Error_Json MSG_MISSING_FILE_DATA), [])))"

subsection \<open>transcribe-youtube\<close>

definition MAX_VIDEO_DURATION_SECONDS :: int where
  "MAX_VIDEO_DURATION_SECONDS = 600"

text \<open>
  The video library: whether a link is valid, the metadata of a video, the choice of a
  format (audio only, lowest audio quality), and the stream of a download, which ends
  after some chunks or fails with an error. \<^verbatim>\<open>toBase64\<close> is the text form of a buffer.
\<close>

record videoInfo =
  lengthSeconds :: string
  formats :: "format list"

datatype stream_events = Ends "string list" | Fails string

record youtube_env = ai_env +
  validateURL :: "string \<Rightarrow> bool"
  getInfo :: "string \<Rightarrow> thrown + videoInfo"
  chooseFormat :: "format list \<Rightarrow> thrown + format option"
  openStream :: "string \<Rightarrow> format \<Rightarrow> stream_events"
  toBase64 :: "string \<Rightarrow> string"

text \<open>\<^verbatim>\<open>streamToBuffer\<close>, lines 7 to 14.\<close>

definition streamToBuffer :: "stream_events \<Rightarrow> thrown + string" where
  "streamToBuffer stream =
     (case stream of
        Ends chunks \<Rightarrow> Inr (concat chunks)
      | Fails message \<Rightarrow> Inl (Error (''Stream error: '' @ message)))"

text \<open>The \<^verbatim>\<open>catch\<close> block, lines 73 to 86.\<close>

definition catch_youtube :: "(string \<Rightarrow> string) \<Rightarrow> thrown \<Rightarrow> response" where
  "catch_youtube toLowerCase e =
     (let errorMessage = errorMessage_of e
      in if str_includes (toLowerCase errorMessage) ''api key'' \<or>
            str_includes errorMessage ''API_KEY''
         then json_response 500 (Error_Json MSG_API_KEY_CONFIG)
         else if str_includes (toLowerCase errorMessage) ''resource has been exhausted''
         then json_response 413 (Error_Json MSG_VIDEO_TOO_LARGE)
         else json_response 500 (Error_Details_Json MSG_YOUTUBE_FAILED errorMessage))"

text \<open>Lines 49 to 71: the check of the credential and the call of the service.\<close>

definition transcribe_audio ::
  "('a youtube_env_scheme) \<Rightarrow> string \<Rightarrow> (thrown + response) \<times> outbound list" where
  "transcribe_audio env audioBase64 =
     (if \<not> truthy (API_KEY env)
      then (Inl (Error ''API_KEY environment variable is not set.''), [])
      else
        (let params = contents PROMPT_AUDIO audioBase64 ''audio/mp4''
         in case generateContent env params of
              Inl e \<Rightarrow> (Inl e, [GenerateContent params])
            | Inr text \<Rightarrow>
                (Inr (json_response 200 (Transcript_Json text)), [GenerateContent params])))"

text \<open>Lines 36 to 71: what follows the check of the duration.\<close>

definition after_duration_check ::
  "('a youtube_env_scheme) \<Rightarrow> string \<Rightarrow> videoInfo \<Rightarrow> (thrown + response) \<times> outbound list" where
  "after_duration_check env u info =
     (case chooseFormat env (formats info) of
        Inl e \<Rightarrow> (Inl e, [])
      | Inr None \<Rightarrow> (Inr (json_response 400 (Error_Json MSG_NO_AUDIO_FORMAT)), [])
      | Inr (Some audioFormat) \<Rightarrow>
          (case streamToBuffer (openStream env u audioFormat) of
             Inl e \<Rightarrow> (Inl e, [Download u audioFormat])
           | Inr audioBuffer \<Rightarrow>
               (case transcribe_audio env (toBase64 env audioBuffer) of
                  (r, calls) \<Rightarrow> (r, Download u audioFormat # calls))))"

text \<open>The \<^verbatim>\<open>try\<close> block, lines 28 to 72.\<close>

definition try_youtube ::
  "('a youtube_env_scheme) \<Rightarrow> string \<Rightarrow> (thrown + response) \<times> outbound list" where
  "try_youtube env u =
     (case getInfo env u of
        Inl e \<Rightarrow> (Inl e, [GetInfo u])
      | Inr info \<Rightarrow>
          (let duration = parseInt (lengthSeconds info)
           in if greater_than duration MAX_VIDEO_DURATION_SECONDS
              then (Inr (json_response 400 (Error_Json MSG_DURATION)), [GetInfo u])
              else (case after_duration_check env u info of
                      (r, calls) \<Rightarrow> (r, GetInfo u # calls))))"

definition handler_youtube ::
  "(string \<Rightarrow> string) \<Rightarrow> ('a youtube_env_scheme) \<Rightarrow> url_request \<Rightarrow> response \<times> outbound list" where
  "handler_youtube toLowerCase env req =
     (if http_method req \<noteq> ''POST'' then (method_not_allowed, [])
      else
        (case url req of
           None \<Rightarrow> (json_response 400 (Error_Json MSG_INVALID_URL), [])
         | Some u \<Rightarrow>
             if u = [] \<or> \<not> validateURL env u
             then (json_response 400 (Error_Json MSG_INVALID_URL), [])
             else
               (case try_youtube env u of
                  (Inl e, calls) \<Rightarrow> (catch_youtube toLowerCase e, calls)
                | (Inr res, calls) \<Rightarrow> (res, calls))))"

section \<open>The transcriber component (components/VideoTranscriber.tsx and part_000)\<close>

text \<open>
  The repository holds the component twice. components/VideoTranscriber.tsx calls the
  transcription service from the browser; part_000 sends the input to the two request
  handlers. The state of both is the values of their \<^verbatim>\<open>useState\<close> hooks; part_000 has
  one more, \<^verbatim>\<open>isCopied\<close>. The functions of part_000 carry its name; the state
  \<^verbatim>\<open>file\<close> is named \<open>file_sel\<close>.
\<close>

datatype InputType = Type_url | Type_file

record File =
  file_name :: string
  file_size :: nat
  file_type :: string

record transcriber_state =
  inputType :: InputType
  urlValue :: string
  file_sel :: "File option"
  fileName :: string
  isLoading :: bool
  transcript :: string
  error :: string

record transcriber_state_part_000 = transcriber_state +
  isCopied :: bool

text \<open>
  The browser reads a file as a data URL; \<open>None\<close> is the error event of the reader, whose
  event object is what the promise rejects with. Both components keep what stands
  between the first comma of the data URL and the next one.
\<close>

record browser_env =
  readAsDataURL :: "File \<Rightarrow> string option"

definition second_field :: "string \<Rightarrow> string" where
  "second_field s =
     takeWhile (\<lambda>c. c \<noteq> CHR '','') (drop 1 (dropWhile (\<lambda>c. c \<noteq> CHR '','') s))"

definition read_base64 :: "('a browser_env_scheme) \<Rightarrow> File \<Rightarrow> thrown + string" where
  "read_base64 env f =
     (case readAsDataURL env f of
        None \<Rightarrow> Inl (Other_Value ''[object ProgressEvent]'')
      | Some dataUrl \<Rightarrow> Inr (second_field dataUrl))"

definition message_of :: "thrown \<Rightarrow> string" where
  "message_of e = (case e of Error m \<Rightarrow> m | Other_Value v \<Rightarrow> v)"

subsection \<open>components/VideoTranscriber.tsx\<close>

text \<open>
  Around this component: the constructor of the client of the transcription service,
  which returns or throws, and the service itself.
\<close>

record direct_env = browser_env +
  newGoogleGenAI :: "thrown option"
  generateContent_browser :: "gen_params \<Rightarrow> thrown + string"

text \<open>
  The \<^verbatim>\<open>try\<close> block of \<^verbatim>\<open>handleTranscribe\<close>, lines 64 to 77: the transcript to set, if
  any, or the value thrown, with the calls made.
\<close>

definition try_transcribe ::
  "direct_env \<Rightarrow> 'a transcriber_state_scheme \<Rightarrow> (thrown + string option) \<times> outbound list" where
  "try_transcribe env s =
     (case newGoogleGenAI env of
        Some e \<Rightarrow> (Inl e, [])
      | None \<Rightarrow>
          (case file_sel s of
             None \<Rightarrow> (Inr None, [])
           | Some f \<Rightarrow>
               (case read_base64 env f of
                  Inl e \<Rightarrow> (Inl e, [])
                | Inr data \<Rightarrow>
                    (let params = contents PROMPT_VIDEO data (file_type f)
                     in case generateContent_browser env params of
                          Inl e \<Rightarrow> (Inl e, [GenerateContent params])
                        | Inr text \<Rightarrow> (Inr (Some text), [GenerateContent params])))))"

text \<open>\<^verbatim>\<open>handleTranscribe\<close>, lines 48 to 89.\<close>

definition handleTranscribe ::
  "(string \<Rightarrow> string) \<Rightarrow> direct_env \<Rightarrow> transcriber_state \<Rightarrow> transcriber_state \<times> outbound list" where
  "handleTranscribe toLowerCase env s =
     (if (inputType s = Type_url \<and> trim (urlValue s) = []) \<or>
         (inputType s = Type_file \<and> file_sel s = None)
      then (s\<lparr>error := MSG_NEED_INPUT\<rparr>, [])
      else
        (let s1 = s\<lparr>isLoading := True, transcript := [], error := []\<rparr>
         in if inputType s1 = Type_url
            then (s1\<lparr>error := MSG_URL_UNSUPPORTED, isLoading := False\<rparr>, [])
            else
              (case try_transcribe env s1 of
                 (Inr None, calls) \<Rightarrow> (s1\<lparr>isLoading := False\<rparr>, calls)
               | (Inr (Some text), calls) \<Rightarrow>
                   (s1\<lparr>transcript := text, isLoading := False\<rparr>, calls)
               | (Inl e, calls) \<Rightarrow>
                   (let errorMessage = message_of e
                    in if str_includes (toLowerCase errorMessage) ''api key''
                       then (s1\<lparr>error := MSG_CLIENT_API_KEY, isLoading := False\<rparr>, calls)
                       else (s1\<lparr>error := MSG_CLIENT_FAILED, isLoading := False\<rparr>, calls)))))"

text \<open>\<^verbatim>\<open>resetState\<close> and \<^verbatim>\<open>handleTypeChange\<close>, lines 95 to 106.\<close>

definition resetState :: "transcriber_state \<Rightarrow> transcriber_state" where
  "resetState s = s\<lparr>urlValue := [], file_sel := None, fileName := [], transcript := [], error := []\<rparr>"

definition handleTypeChange :: "InputType \<Rightarrow> transcriber_state \<Rightarrow> transcriber_state" where
  "handleTypeChange t s = resetState (s\<lparr>inputType := t\<rparr>)"

subsection \<open>part_000\<close>

text \<open>
  Around this component: \<^verbatim>\<open>fetch\<close>, which throws or gives a response; a response says
  whether its status is a success, and its body parses as JSON to an object with an
  \<^verbatim>\<open>error\<close> field, which may be absent, and a \<^verbatim>\<open>transcript\<close> field, or the parsing throws.
\<close>

record json_data =
  data_error :: "string option"
  data_transcript :: string

record fetch_response =
  ok :: bool
  json_of :: "thrown + json_data"

record proxy_env = browser_env +
  fetch :: "string \<Rightarrow> fetch_body \<Rightarrow> thrown + fetch_response"

text \<open>The largest size of a file that is sent, line 63: 4.5 * 1024 * 1024 bytes.\<close>

definition MAX_FILE_BYTES :: nat where
  "MAX_FILE_BYTES = 4718592"

text \<open>Lines 74 to 79: what is done with the response of either handler.\<close>

definition read_response :: "fetch_response \<Rightarrow> thrown + string" where
  "read_response response =
     (case json_of response of
        Inl e \<Rightarrow> Inl e
      | Inr data \<Rightarrow>
          if \<not> ok response
          then Inl (Error (case data_error data of
                             None \<Rightarrow> MSG_SERVER_FAILED
                           | Some m \<Rightarrow> if m = [] then MSG_SERVER_FAILED else m))
          else Inr (data_transcript data))"

text \<open>The \<^verbatim>\<open>try\<close> block of \<^verbatim>\<open>handleTranscribe\<close>, lines 49 to 80.\<close>

definition try_transcribe_part_000 ::
  "proxy_env \<Rightarrow> 'a transcriber_state_scheme \<Rightarrow> (thrown + string) \<times> outbound list" where
  "try_transcribe_part_000 env s =
     (if inputType s = Type_url
      then
        (case fetch env ''/api/transcribe-youtube'' (Url_Body (urlValue s)) of
           Inl e \<Rightarrow> (Inl e, [Fetch ''/api/transcribe-youtube'' (Url_Body (urlValue s))])
         | Inr response \<Rightarrow>
             (read_response response,
              [Fetch ''/api/transcribe-youtube'' (Url_Body (urlValue s))]))
      else
        (case file_sel s of
           None \<Rightarrow> (Inl (Error MSG_SELECT_FILE), [])
         | Some f \<Rightarrow>
             if MAX_FILE_BYTES < file_size f then (Inl (Error MSG_SIZE_LIMIT), [])
             else
               (case read_base64 env f of
                  Inl e \<Rightarrow> (Inl e, [])
                | Inr data \<Rightarrow>
                    (case fetch env ''/api/transcribe-file'' (File_Body data (file_type f)) of
                       Inl e \<Rightarrow>
                         (Inl e, [Fetch ''/api/transcribe-file'' (File_Body data (file_type f))])
                     | Inr response \<Rightarrow>
                         (read_response response,
                          [Fetch ''/api/transcribe-file'' (File_Body data (file_type f))])))))"

text \<open>\<^verbatim>\<open>handleTranscribe\<close>, lines 38 to 92.\<close>

definition handleTranscribe_part_000 ::
  "proxy_env \<Rightarrow> transcriber_state_part_000 \<Rightarrow> transcriber_state_part_000 \<times> outbound list" where
  "handleTranscribe_part_000 env s =
     (if (inputType s = Type_url \<and> trim (urlValue s) = []) \<or>
         (inputType s = Type_file \<and> file_sel s = None)
      then (s\<lparr>error := MSG_NEED_INPUT\<rparr>, [])
      else
        (let s1 = s\<lparr>isLoading := True, transcript := [], error := [], isCopied := False\<rparr>
         in case try_transcribe_part_000 env s1 of
              (Inr text, calls) \<Rightarrow> (s1\<lparr>transcript := text, isLoading := False\<rparr>, calls)
            | (Inl e, calls) \<Rightarrow>
                (let errorMessage = message_of e
                 in if str_includes errorMessage ''Failed to fetch''
                    then (s1\<lparr>error := MSG_UNREACHABLE, isLoading := False\<rparr>, calls)
                    else (s1\<lparr>error := MSG_FAILED_PREFIX @ errorMessage, isLoading := False\<rparr>,
                          calls))))"

text \<open>\<^verbatim>\<open>resetState\<close> and \<^verbatim>\<open>handleTypeChange\<close>, lines 106 to 118.\<close>

definition resetState_part_000 :: "transcriber_state_part_000 \<Rightarrow> transcriber_state_part_000" where
  "resetState_part_000 s =
     s\<lparr>urlValue := [], file_sel := None, fileName := [], transcript := [], error := [],
       isCopied := False\<rparr>"

definition handleTypeChange_part_000 ::
  "InputType \<Rightarrow> transcriber_state_part_000 \<Rightarrow> transcriber_state_part_000" where
  "handleTypeChange_part_000 t s = resetState_part_000 (s\<lparr>inputType := t\<rparr>)"

section \<open>Predicates of the statements and inputs of the examples\<close>

text \<open>
  The articles a channel filter and a search string select, as the spec words it; a
  search string of white space only selects by channel alone.
\<close>

definition shown :: "(string \<Rightarrow> string) \<Rightarrow> string \<Rightarrow> string \<Rightarrow> NewsArticle \<Rightarrow> bool" where
  "shown toLowerCase c q a =
     ((c = ''all'' \<or> channelId a = c) \<and>
      (trim q = '''' \<or> str_includes (toLowerCase (title a)) (toLowerCase q) \<or>
         str_includes (toLowerCase (content a)) (toLowerCase q)))"

text \<open>The sort key of an article, and when an article is at least as recent as another.\<close>

definition time_key :: "(string \<Rightarrow> int option) \<Rightarrow> NewsArticle \<Rightarrow> int" where
  "time_key getTime a = (case getTime (date a) of None \<Rightarrow> 0 | Some t \<Rightarrow> - t)"

definition newer_or_same :: "(string \<Rightarrow> int option) \<Rightarrow> NewsArticle \<Rightarrow> NewsArticle \<Rightarrow> bool" where
  "newer_or_same getTime a b =
     (case getTime (date a) of
        None \<Rightarrow> False
      | Some ta \<Rightarrow> (case getTime (date b) of None \<Rightarrow> False | Some tb \<Rightarrow> tb \<le> ta))"

text \<open>
  Three articles, two of them of the same day, in a store that holds the oldest first;
  and the time values of their dates (midnight UTC, in milliseconds).
\<close>

definition ex_getTime :: "string \<Rightarrow> int option" where
  "ex_getTime = map_of [(''2024-01-01'', 1704067200000), (''2024-01-02'', 1704153600000)]"

definition ex_older :: NewsArticle where
  "ex_older = \<lparr>id_num = 1, channelId = ''cna'', title = ''Budget'', content = ''Approved'',
                date = ''2024-01-01'', imageUrl = ''''\<rparr>"

definition ex_newer :: NewsArticle where
  "ex_newer = \<lparr>id_num = 2, channelId = ''pts'', title = ''Hello World'', content = ''x y'',
                date = ''2024-01-02'', imageUrl = ''''\<rparr>"

definition ex_twin :: NewsArticle where
  "ex_twin = \<lparr>id_num = 3, channelId = ''pts'', title = ''Weather'', content = ''Rain'',
               date = ''2024-01-01'', imageUrl = ''''\<rparr>"

definition ex_store :: "NewsArticle list" where
  "ex_store = [ex_older, ex_newer, ex_twin]"

text \<open>
  A request to each handler, and surroundings for them: a key is set (or, for the second
  handler, whatever is given), the service answers every call with the given outcome, the
  video has the given length and one audio format, and its download ends after two chunks.
\<close>

definition ex_file_request :: file_request where
  "ex_file_request =
     \<lparr>http_method = ''POST'', fileData = Some ''AAAA'', mimeType = Some ''audio/mpeg''\<rparr>"

definition ex_ai_env :: "thrown + string \<Rightarrow> ai_env" where
  "ex_ai_env outcome = \<lparr>API_KEY = Some ''key'', generateContent = (\<lambda>params. outcome)\<rparr>"

definition ex_link :: string where
  "ex_link = ''https://www.youtube.com/watch?v=abc''"

definition ex_url_request :: url_request where
  "ex_url_request = \<lparr>http_method = ''POST'', url = Some ex_link\<rparr>"

definition ex_youtube_env :: "string option \<Rightarrow> string \<Rightarrow> thrown + string \<Rightarrow> youtube_env" where
  "ex_youtube_env key len outcome =
     \<lparr>API_KEY = key, generateContent = (\<lambda>params. outcome),
      validateURL = (\<lambda>u. prefix ''https://www.youtube.com/watch?v='' u),
      getInfo = (\<lambda>u. Inr \<lparr>lengthSeconds = len, formats = [Format 140]\<rparr>),
      chooseFormat = (\<lambda>fs. Inr (case fs of [] \<Rightarrow> None | f # rest \<Rightarrow> Some f)),
      openStream = (\<lambda>u f. Ends [''ID3'', ''data'']),
      toBase64 = (\<lambda>buffer. ''SUQzZGF0YQ=='')\<rparr>"

text \<open>
  A file of 5 MB selected in each component, with surroundings in which the file reads,
  the client of the service is built and the service or the backend answers.
\<close>

definition ex_big_file :: File where
  "ex_big_file = \<lparr>file_name = ''talk.mp4'', file_size = 5242880, file_type = ''video/mp4''\<rparr>"

definition ex_file_state :: transcriber_state where
  "ex_file_state =
     \<lparr>inputType = Type_file, urlValue = [], file_sel = Some ex_big_file,
      fileName = ''talk.mp4'', isLoading = False, transcript = [], error = []\<rparr>"

definition ex_file_state_part_000 :: transcriber_state_part_000 where
  "ex_file_state_part_000 =
     \<lparr>inputType = Type_file, urlValue = [], file_sel = Some ex_big_file,
      fileName = ''talk.mp4'', isLoading = False, transcript = [], error = [],
      isCopied = False\<rparr>"

definition ex_direct_env :: direct_env where
  "ex_direct_env =
     \<lparr>readAsDataURL = (\<lambda>f. Some ''data:video/mp4;base64,AAAA''),
      newGoogleGenAI = None,
      generateContent_browser = (\<lambda>params. Inr ''Hello'')\<rparr>"

definition ex_proxy_env :: proxy_env where
  "ex_proxy_env =
     \<lparr>readAsDataURL = (\<lambda>f. Some ''data:video/mp4;base64,AAAA''),
      fetch = (\<lambda>path b. Inr \<lparr>ok = True,
                               json_of = Inr \<lparr>data_error = None, data_transcript = ''Hello''\<rparr>\<rparr>)\<rparr>"

text \<open>The same surroundings with no key and a download that fails.\<close>

definition ex_broken_stream_env :: youtube_env where
  "ex_broken_stream_env =
     (ex_youtube_env None ''600'' (Inr ''Hello''))\<lparr>openStream := (\<lambda>u f. Fails ''aborted'')\<rparr>"

section \<open>The article query: what it returns\<close>

lemma str_includes_sublist: "str_includes s x = sublist x s"
  by (induction s) (auto simp: sublist_Cons_right)

lemma str_includes_empty: "str_includes s []"
  by (induction s) auto

lemma mset_sort_insert: "mset (sort_insert f x xs) = add_mset x (mset xs)"
  by (induction xs) auto

lemma mset_array_sort: "mset (array_sort f xs) = mset xs"
  by (induction xs) (auto simp: array_sort_def mset_sort_insert)

lemma set_array_sort: "set (array_sort f xs) = set xs"
  by (metis mset_array_sort set_mset_mset)

text \<open>The query returns the selected articles of the store, sorted.\<close>

lemma query_result_eq:
  "query_result toLowerCase getTime store c q = array_sort (compareFn getTime) (filter (shown toLowerCase c q) store)"
  by (cases "c = ''all''"; cases "trim q = ''''")
     (simp_all add: query_result_def filteredNews_def array_sort_in_place_def array_filter_def
        deref_def shown_def[abs_def] Let_def)

text \<open>
  The store after the query: sorted in place when the query ran on the store's own array,
  that is with the channel filter "all" and a search string that trims to nothing.
\<close>

lemma store_after_eq:
  "store_after toLowerCase getTime store c q =
     (if c = ''all'' \<and> trim q = '''' then array_sort (compareFn getTime) store else store)"
  by (auto simp: store_after_def filteredNews_def array_sort_in_place_def array_filter_def
        deref_def Let_def)

lemma mset_store_after: "mset (store_after toLowerCase getTime store c q) = mset store"
  by (simp add: store_after_eq mset_array_sort)

text \<open>
  X2. A query never changes which articles the store holds, and changes their order only
  when the channel filter is "all" and the search string trims to nothing: with any other
  filter or search string the store is after the query what it was before.
\<close>

theorem store_after_frame:
  "mset (store_after toLowerCase getTime store c q) = mset store \<and>
   (c \<noteq> ''all'' \<or> trim q \<noteq> '''' \<longrightarrow> store_after toLowerCase getTime store c q = store)"
  by (auto simp: store_after_eq mset_array_sort)

theorem store_after_frame_witness:
  "store_after toLowerCase_ascii ex_getTime ex_store ''pts'' '''' = ex_store \<and>
   store_after toLowerCase_ascii ex_getTime ex_store ''all'' ''WORLD'' = ex_store \<and>
   mset (store_after toLowerCase_ascii ex_getTime ex_store ''all'' '''') = mset ex_store"
  using store_after_frame [of toLowerCase_ascii ex_getTime ex_store "''pts''" "''''"]
    store_after_frame [of toLowerCase_ascii ex_getTime ex_store "''all''" "''WORLD''"]
    store_after_frame [of toLowerCase_ascii ex_getTime ex_store "''all''" "''''"]
  by (simp add: trim_def trimStart_def trimEnd_def whiteSpace_def)

text \<open>
  C1 (as amended). Whatever function the runtime's lower-casing is: every article of the
  result is an article of the store and satisfies the channel predicate; it satisfies the
  case-insensitive substring predicate when the search string has a character that is not
  white space (or is empty, the lower-casing of the empty text being empty). A search
  string that trims to nothing applies no text filter: the result then holds exactly the
  articles of the store that satisfy the channel predicate, and with the channel filter
  "all" all articles of the store.
\<close>

theorem query_result_sound:
  "(\<forall>a\<in>set (query_result toLowerCase getTime store c q).
      a \<in> set store \<and> (c = ''all'' \<or> channelId a = c) \<and>
      (trim q \<noteq> '''' \<or> (q = '''' \<and> toLowerCase '''' = '''') \<longrightarrow>
         str_includes (toLowerCase (title a)) (toLowerCase q) \<or>
         str_includes (toLowerCase (content a)) (toLowerCase q))) \<and>
   (trim q = '''' \<longrightarrow>
      mset (query_result toLowerCase getTime store c q) =
      mset (filter (\<lambda>a. c = ''all'' \<or> channelId a = c) store)) \<and>
   (c = ''all'' \<and> trim q = '''' \<longrightarrow>
      mset (query_result toLowerCase getTime store c q) = mset store)"
proof -
  have "set (query_result toLowerCase getTime store c q) =
        {a \<in> set store. shown toLowerCase c q a}"
    by (simp add: query_result_eq set_array_sort)
  moreover have "mset (query_result toLowerCase getTime store c q) =
        mset (filter (\<lambda>a. c = ''all'' \<or> channelId a = c) store)"
    if "trim q = ''''"
    using that by (simp add: query_result_eq mset_array_sort shown_def[abs_def])
  moreover have "mset (query_result toLowerCase getTime store c q) = mset store"
    if "c = ''all''" "trim q = ''''"
    using that by (simp add: query_result_eq mset_array_sort shown_def[abs_def])
  ultimately show ?thesis
    by (auto simp: shown_def str_includes_empty)
qed

lemma trim_ideographic_space: "trim [CHR 0xE3, CHR 0x80, CHR 0x80] = ''''"
  by (simp add: trim_def trimStart_def trimEnd_def whiteSpace_def)

lemmas ex_news_defs =
  ex_store_def ex_older_def ex_newer_def ex_twin_def ex_getTime_def query_result_def
  store_after_def filteredNews_def array_sort_in_place_def array_filter_def deref_def
  array_sort_def SortCompare_def compareFn_def trim_def trimStart_def trimEnd_def whiteSpace_def
  toLowerCase_ascii_def toLowerCase_char_def

lemma ex_query_world: "query_result toLowerCase_ascii ex_getTime ex_store ''all'' ''WORLD'' = [ex_newer]"
  by (simp add: ex_news_defs)

lemma ex_query_all: "query_result toLowerCase_ascii ex_getTime ex_store ''all'' '''' = [ex_newer, ex_older, ex_twin]"
  by (simp add: ex_news_defs)

lemma ex_query_space: "query_result toLowerCase_ascii ex_getTime ex_store ''all'' '' '' = [ex_newer, ex_older, ex_twin]"
  by (simp add: ex_news_defs)

lemma ex_query_ideographic_space:
  "query_result toLowerCase_ascii ex_getTime ex_store ''pts'' [CHR 0xE3, CHR 0x80, CHR 0x80] =
     [ex_newer, ex_twin]"
  by (simp add: ex_news_defs)

theorem query_result_sound_witness:
  "query_result toLowerCase_ascii ex_getTime ex_store ''all'' ''WORLD'' = [ex_newer] \<and>
   ex_newer \<in> set ex_store \<and>
   (str_includes (toLowerCase_ascii (title ex_newer)) (toLowerCase_ascii ''WORLD'') \<or>
    str_includes (toLowerCase_ascii (content ex_newer)) (toLowerCase_ascii ''WORLD'')) \<and>
   mset (query_result toLowerCase_ascii ex_getTime ex_store ''all'' '''') = mset ex_store \<and>
   mset (query_result toLowerCase_ascii ex_getTime ex_store ''pts''
           [CHR 0xE3, CHR 0x80, CHR 0x80]) =
     mset (filter (\<lambda>a. ''pts'' = ''all'' \<or> channelId a = ''pts'') ex_store)"
proof -
  have nonblank: "trim ''WORLD'' \<noteq> ''''" and blank: "trim '''' = ''''"
    by (simp_all add: trim_def trimStart_def trimEnd_def whiteSpace_def)
  from query_result_sound [of toLowerCase_ascii ex_getTime ex_store "''all''" "''WORLD''"]
    nonblank
  have "\<forall>a\<in>set (query_result toLowerCase_ascii ex_getTime ex_store ''all'' ''WORLD'').
          a \<in> set ex_store \<and>
          (str_includes (toLowerCase_ascii (title a)) (toLowerCase_ascii ''WORLD'') \<or>
           str_includes (toLowerCase_ascii (content a)) (toLowerCase_ascii ''WORLD''))"
    by blast
  then have world: "ex_newer \<in> set ex_store \<and>
      (str_includes (toLowerCase_ascii (title ex_newer)) (toLowerCase_ascii ''WORLD'') \<or>
       str_includes (toLowerCase_ascii (content ex_newer)) (toLowerCase_ascii ''WORLD''))"
    by (simp add: ex_query_world)
  from query_result_sound [of toLowerCase_ascii ex_getTime ex_store "''all''" "''''"] blank
  have all: "mset (query_result toLowerCase_ascii ex_getTime ex_store ''all'' '''') =
      mset ex_store"
    by blast
  from query_result_sound [of toLowerCase_ascii ex_getTime ex_store "''pts''"
      "[CHR 0xE3, CHR 0x80, CHR 0x80]"] trim_ideographic_space
  have "mset (query_result toLowerCase_ascii ex_getTime ex_store ''pts''
                [CHR 0xE3, CHR 0x80, CHR 0x80]) =
        mset (filter (\<lambda>a. ''pts'' = ''all'' \<or> channelId a = ''pts'') ex_store)"
    by blast
  with world all ex_query_world show ?thesis by blast
qed

text \<open>
  The claim as first stated fails for a search string of one space: the text filter is
  not applied, and the result holds an article with no space in its title or content.
\<close>

theorem query_result_blank_counterexample:
  "ex_older \<in> set (query_result toLowerCase_ascii ex_getTime ex_store ''all'' '' '') \<and>
   \<not> str_includes (toLowerCase_ascii (title ex_older)) (toLowerCase_ascii '' '') \<and>
   \<not> str_includes (toLowerCase_ascii (content ex_older)) (toLowerCase_ascii '' '')"
  by (simp add: ex_query_space) (simp add: ex_older_def toLowerCase_ascii_def toLowerCase_char_def)

section \<open>The article query: order\<close>

text \<open>
  When every date of the store parses, the comparator of line 24 orders by the time value,
  latest first, and the sort is the stable sort by that key.
\<close>

lemma sort_insert_insort_key:
  assumes "getTime (date x) \<noteq> None" "\<forall>a\<in>set ys. getTime (date a) \<noteq> None"
  shows "sort_insert (compareFn getTime) x ys = insort_key (time_key getTime) x ys"
  using assms
  by (induction ys) (auto simp: SortCompare_def compareFn_def time_key_def split: option.splits)

lemma array_sort_sort_key:
  assumes "\<forall>a\<in>set xs. getTime (date a) \<noteq> None"
  shows "array_sort (compareFn getTime) xs = sort_key (time_key getTime) xs"
  using assms
proof (induction xs)
  case Nil
  then show ?case by (simp add: array_sort_def)
next
  case (Cons x xs)
  have "array_sort (compareFn getTime) (x # xs) =
        sort_insert (compareFn getTime) x (array_sort (compareFn getTime) xs)"
    by (simp add: array_sort_def)
  also have "\<dots> = insort_key (time_key getTime) x (array_sort (compareFn getTime) xs)"
    using Cons.prems by (intro sort_insert_insort_key) (auto simp: set_array_sort)
  finally show ?case using Cons by simp
qed

lemma sorted_wrt_newer_or_same:
  assumes "\<forall>a\<in>set xs. getTime (date a) \<noteq> None" "sorted (map (time_key getTime) xs)"
  shows "sorted_wrt (newer_or_same getTime) xs"
  using assms
  by (induction xs) (auto simp: newer_or_same_def time_key_def split: option.splits)

text \<open>
  C5. In a store whose dates all parse, for every channel filter and search string the
  result is sorted by date, most recent first: each article is at least as recent as every
  article after it. Articles of equal date stand in the result in the order they have in
  the store: for every time value, the articles of the result with that time value are
  the articles of the store with that time value that are in the result, in the store's
  order.
\<close>

theorem query_result_sorted_stable:
  assumes "\<forall>a\<in>set store. getTime (date a) \<noteq> None"
  shows "sorted_wrt (newer_or_same getTime) (query_result toLowerCase getTime store c q) \<and>
         (\<forall>t. filter (\<lambda>a. getTime (date a) = Some t) (query_result toLowerCase getTime store c q) =
              filter (\<lambda>a. getTime (date a) = Some t \<and> a \<in> set (query_result toLowerCase getTime store c q))
                store)"
proof -
  let ?sel = "filter (shown toLowerCase c q) store"
  have parse: "\<forall>a\<in>set ?sel. getTime (date a) \<noteq> None"
    using assms by simp
  have q: "query_result toLowerCase getTime store c q = sort_key (time_key getTime) ?sel"
    by (simp add: query_result_eq array_sort_sort_key [OF parse])
  have "sorted (map (time_key getTime) (query_result toLowerCase getTime store c q))"
    by (simp add: q)
  moreover have "\<forall>a\<in>set (query_result toLowerCase getTime store c q). getTime (date a) \<noteq> None"
    using assms by (simp add: q)
  ultimately have s: "sorted_wrt (newer_or_same getTime) (query_result toLowerCase getTime store c q)"
    by (rule sorted_wrt_newer_or_same [rotated])
  have st: "filter (\<lambda>a. getTime (date a) = Some t) (query_result toLowerCase getTime store c q) =
            filter (\<lambda>a. getTime (date a) = Some t \<and> a \<in> set (query_result toLowerCase getTime store c q))
              store" for t
  proof -
    have k: "(getTime (date a) = Some t) = (time_key getTime a = - t)" if "a \<in> set store" for a
      using assms that by (auto simp: time_key_def split: option.splits)
    have "filter (\<lambda>a. getTime (date a) = Some t) (query_result toLowerCase getTime store c q) =
          filter (\<lambda>a. time_key getTime a = - t) (sort_key (time_key getTime) ?sel)"
      unfolding q by (rule filter_cong) (auto simp: k)
    also have "\<dots> = filter (\<lambda>a. time_key getTime a = - t) ?sel"
      by (rule sort_key_stable)
    also have "\<dots> = filter (\<lambda>a. getTime (date a) = Some t \<and>
                              a \<in> set (query_result toLowerCase getTime store c q)) store"
      unfolding filter_filter by (rule filter_cong) (auto simp: k q)
    finally show ?thesis .
  qed
  show ?thesis using s st by blast
qed

theorem query_result_sorted_stable_witness:
  "query_result toLowerCase_ascii ex_getTime ex_store ''all'' '''' = [ex_newer, ex_older, ex_twin] \<and>
   sorted_wrt (newer_or_same ex_getTime) (query_result toLowerCase_ascii ex_getTime ex_store ''all'' '''') \<and>
   filter (\<lambda>a. ex_getTime (date a) = Some 1704067200000)
     (query_result toLowerCase_ascii ex_getTime ex_store ''all'' '''') = [ex_older, ex_twin]"
proof -
  have parse: "\<forall>a\<in>set ex_store. ex_getTime (date a) \<noteq> None"
    by (simp add: ex_store_def ex_older_def ex_newer_def ex_twin_def ex_getTime_def)
  note sorted_stable = query_result_sorted_stable [OF parse, of toLowerCase_ascii "''all''" "''''"]
  have ordered:
    "sorted_wrt (newer_or_same ex_getTime) (query_result toLowerCase_ascii ex_getTime ex_store ''all'' '''')"
    using sorted_stable by blast
  have "filter (\<lambda>a. ex_getTime (date a) = Some 1704067200000)
          (query_result toLowerCase_ascii ex_getTime ex_store ''all'' '''') =
        filter (\<lambda>a. ex_getTime (date a) = Some 1704067200000 \<and>
                  a \<in> set (query_result toLowerCase_ascii ex_getTime ex_store ''all'' '''')) ex_store"
    using sorted_stable by blast
  also have "\<dots> = [ex_older, ex_twin]"
    unfolding ex_query_all
    by (simp add: ex_store_def ex_older_def ex_newer_def ex_twin_def ex_getTime_def)
  finally show ?thesis
    using ordered ex_query_all by simp
qed

text \<open>
  The in-place sort keeps articles of equal date in their order, so the order of the store
  after a query is again an order of insertion for the ties.
\<close>

lemma store_after_keeps_ties:
  assumes "\<forall>a\<in>set store. getTime (date a) \<noteq> None"
  shows "filter (\<lambda>a. time_key getTime a = k) (store_after toLowerCase getTime store c q) =
         filter (\<lambda>a. time_key getTime a = k) store"
  by (simp add: store_after_eq array_sort_sort_key [OF assms] sort_key_stable)

section \<open>The article query: the store\<close>

text \<open>
  C2. The claim fails on the code. With the channel filter "all" and an empty search
  string \<^verbatim>\<open>news\<close> is the array of the store itself (line 13), and line 24 sorts it in
  place: a store that holds its oldest article first holds its newest first afterwards.
\<close>

theorem store_reordered_by_query:
  "ex_store = [ex_older, ex_newer, ex_twin] \<and>
   store_after toLowerCase_ascii ex_getTime ex_store ''all'' '''' = [ex_newer, ex_older, ex_twin] \<and>
   store_after toLowerCase_ascii ex_getTime ex_store ''all'' '''' \<noteq> ex_store"
  by (simp add: ex_news_defs)

section \<open>Highlighting\<close>

text \<open>A query with no syntax character compiles to one group of its characters.\<close>

lemma parse_pattern_literal:
  assumes "\<forall>c\<in>set q. \<not> isSyntaxCharacter c"
  shows "parse_pattern (q @ rest) cur stack = parse_pattern rest (rev (map Chr q) @ cur) stack"
  using assms
proof (induction q arbitrary: cur)
  case Nil
  then show ?case by simp
next
  case (Cons c q)
  from Cons.prems have "\<not> isSyntaxCharacter c" by simp
  then have "c \<noteq> CHR ''(''" "c \<noteq> CHR '')''"
    by (auto simp: isSyntaxCharacter_def)
  with Cons \<open>\<not> isSyntaxCharacter c\<close> show ?case by simp
qed

lemma RegExp_literal:
  assumes "\<forall>c\<in>set q. \<not> isSyntaxCharacter c"
  shows "RegExp (CHR ''('' # q @ '')'') = Regex [Group (map Chr q)]"
proof -
  have "RegExp (CHR ''('' # q @ '')'') = parse_pattern (q @ '')'') [] [[]]"
    by (simp add: RegExp_def)
  also have "\<dots> = parse_pattern '')'' (rev (map Chr q) @ []) [[]]"
    by (rule parse_pattern_literal [OF assms])
  also have "\<dots> = Regex [Group (map Chr q)]"
    by simp
  finally show ?thesis .
qed

text \<open>A match of such a group is a prefix of the text as long as the query, captured once.\<close>

lemma match_nodes_literal:
  "match_nodes (map Chr q) s = Some (m, caps, rest) \<Longrightarrow>
     caps = [] \<and> s = m @ rest \<and> length m = length q"
proof (induction q arbitrary: s m caps rest)
  case Nil
  then show ?case by simp
next
  case (Cons c q)
  then show ?case
    by (cases s) (auto split: option.splits if_splits)
qed

lemma match_group_literal:
  "match_nodes [Group (map Chr q)] s = Some (m, caps, rest) \<Longrightarrow>
     caps = [m] \<and> s = m @ rest \<and> length m = length q"
  by (auto split: option.splits dest: match_nodes_literal)

lemma concat_split_loop_literal:
  assumes "q \<noteq> []"
  shows "concat (split_loop [Group (map Chr q)] pending s) = pending @ s"
proof (induction "[Group (map Chr q)]" pending s rule: split_loop.induct)
  case (1 pending)
  then show ?case by simp
next
  case (2 pending c cs)
  show ?case
  proof (cases "match_nodes [Group (map Chr q)] (c # cs)")
    case None
    with 2 show ?thesis by simp
  next
    case (Some r)
    obtain m caps rest where r: "r = (m, caps, rest)"
      by (cases r)
    from match_group_literal [OF Some [unfolded r]]
    have caps: "caps = [m]" and s: "c # cs = m @ rest" and len: "length m = length q"
      by simp_all
    from len assms have m: "m \<noteq> []" by auto
    have d: "drop (length m) (c # cs) = rest"
      by (simp add: s)
    from "2.hyps"(4) [OF Some [unfolded r] refl refl m]
    have ih: "concat (split_loop [Group (map Chr q)] [] (drop (length m) (c # cs))) =
          drop (length m) (c # cs)"
      by simp
    have "split_loop [Group (map Chr q)] pending (c # cs) =
          pending # caps @ split_loop [Group (map Chr q)] [] (drop (length m) (c # cs))"
      using Some r m by simp
    then have "concat (split_loop [Group (map Chr q)] pending (c # cs)) =
          pending @ m @ drop (length m) (c # cs)"
      by (simp add: ih caps)
    also have "\<dots> = pending @ c # cs"
      unfolding d by (simp add: s)
    finally show ?thesis .
  qed
qed

lemma concat_split_literal:
  assumes "q \<noteq> []"
  shows "concat (split text [Group (map Chr q)]) = text"
proof (cases "text = []")
  case True
  from assms obtain c q' where "q = c # q'" by (cases q) auto
  then have "match_nodes [Group (map Chr q)] [] = None" by simp
  with True show ?thesis by (simp add: split_def)
next
  case False
  then show ?thesis by (simp add: split_def concat_split_loop_literal [OF assms])
qed

lemma concat_segment_text:
  "concat (map (segment_text \<circ> (\<lambda>part. if p part then Mark part else Plain part)) parts) =
   concat parts"
  by (induction parts) auto

text \<open>
  X1. For every text and every query with no syntax character of regular expressions the
  function returns, and the segments of the rendering, one after the other, are the
  text; the empty query gives the text itself, with no mark.
\<close>

theorem renderHighlightedText_literal:
  assumes "\<forall>c\<in>set query. \<not> isSyntaxCharacter c"
  shows "\<exists>r. renderHighlightedText toLowerCase text query = Returns r \<and> rendered_text r = text \<and>
             (query = [] \<longrightarrow> r = Text text)"
proof (cases "query = []")
  case True
  then show ?thesis by (simp add: renderHighlightedText_def)
next
  case False
  then show ?thesis
    by (simp add: renderHighlightedText_def RegExp_literal [OF assms] Let_def
          concat_segment_text concat_split_literal)
qed

theorem renderHighlightedText_literal_witness:
  "renderHighlightedText toLowerCase_ascii ''Hello World, hello'' ''hello'' =
     Returns (Span [Plain '''', Mark ''Hello'', Plain '' World, '', Mark ''hello'', Plain '''']) \<and>
   rendered_text
     (Span [Plain '''', Mark ''Hello'', Plain '' World, '', Mark ''hello'', Plain '''']) =
     ''Hello World, hello''"
proof -
  have literal: "\<forall>c\<in>set ''hello''. \<not> isSyntaxCharacter c"
    by (simp add: isSyntaxCharacter_def)
  have "renderHighlightedText toLowerCase_ascii ''Hello World, hello'' ''hello'' =
        Returns (Span [Plain '''', Mark ''Hello'', Plain '' World, '', Mark ''hello'', Plain ''''])"
    by (simp add: renderHighlightedText_def RegExp_def isSyntaxCharacter_def split_def
          canonicalize_def toLowerCase_ascii_def toLowerCase_char_def)
  with renderHighlightedText_literal [OF literal, of toLowerCase_ascii "''Hello World, hello''"]
  show ?thesis by auto
qed

text \<open>
  C3. The claim fails on the code. The query goes into the regular expression as it is
  typed (line 29). For the title "(a)" and the query "(a)" the expression has two groups
  that both capture the letter, and the title comes back as the parts "(", "a", "a", ")",
  which read "(aa)"; with the query "(" the constructor of the expression throws and
  nothing is rendered.
\<close>

theorem renderHighlightedText_syntax_characters:
  "renderHighlightedText toLowerCase_ascii ''(a)'' ''(a)'' =
     Returns (Span [Plain ''('', Plain ''a'', Plain ''a'', Plain '')'']) \<and>
   rendered_text (Span [Plain ''('', Plain ''a'', Plain ''a'', Plain '')'']) = ''(aa)'' \<and>
   renderHighlightedText toLowerCase_ascii ''(a)'' ''('' = Throws_SyntaxError"
  by (simp add: renderHighlightedText_def RegExp_def isSyntaxCharacter_def split_def
        canonicalize_def toLowerCase_ascii_def toLowerCase_char_def)

section \<open>The request handlers\<close>

text \<open>What each handler does when the call of the service throws.\<close>

lemma handler_file_service_throws:
  assumes "http_method req = ''POST''" "fileData req = Some data" "data \<noteq> []"
    "mimeType req = Some mime" "mime \<noteq> []" "truthy (API_KEY env)"
    "generateContent env (contents PROMPT_FILE data mime) = Inl e"
  shows "handler_file toLowerCase env req = (catch_file toLowerCase e, [GenerateContent (contents PROMPT_FILE data mime)])"
  using assms by (simp add: handler_file_def try_file_def Let_def)

lemma handler_youtube_past_duration:
  assumes "http_method req = ''POST''" "url req = Some u" "u \<noteq> []" "validateURL env u"
    "getInfo env u = Inr info"
    "\<not> greater_than (parseInt (lengthSeconds info)) MAX_VIDEO_DURATION_SECONDS"
  shows "handler_youtube toLowerCase env req =
           (case after_duration_check env u info of
              (Inl e, calls) \<Rightarrow> (catch_youtube toLowerCase e, GetInfo u # calls)
            | (Inr res, calls) \<Rightarrow> (res, GetInfo u # calls))"
  using assms
  by (simp add: handler_youtube_def try_youtube_def Let_def split: prod.splits sum.splits)

lemma handler_youtube_service_throws:
  assumes "http_method req = ''POST''" "url req = Some u" "u \<noteq> []" "validateURL env u"
    "getInfo env u = Inr info"
    "\<not> greater_than (parseInt (lengthSeconds info)) MAX_VIDEO_DURATION_SECONDS"
    "chooseFormat env (formats info) = Inr (Some f)" "openStream env u f = Ends chunks"
    "truthy (API_KEY env)"
    "generateContent env (contents PROMPT_AUDIO (toBase64 env (concat chunks)) ''audio/mp4'') = Inl e"
  shows "handler_youtube toLowerCase env req =
           (catch_youtube toLowerCase e,
            [GetInfo u, Download u f,
             GenerateContent (contents PROMPT_AUDIO (toBase64 env (concat chunks)) ''audio/mp4'')])"
  using assms
  by (simp add: handler_youtube_past_duration after_duration_check_def streamToBuffer_def
        transcribe_audio_def Let_def)

lemma greater_than_600: "greater_than (Some 600) MAX_VIDEO_DURATION_SECONDS = False"
  by (simp add: greater_than_def MAX_VIDEO_DURATION_SECONDS_def)

text \<open>
  C6. For a POST request with a valid link whose metadata resolve: when the length parses
  to exactly 600 seconds the handler goes on past the check, its result is that of the
  rest of the handler (lines 36 to 71), and when a format is chosen the download is the
  next call; when the length parses to 601 seconds or more the handler answers 400 with
  the message of the exceeded duration, and the metadata request is its only call.
\<close>

theorem duration_ceiling:
  assumes "http_method req = ''POST''" "url req = Some u" "u \<noteq> []" "validateURL env u"
    "getInfo env u = Inr info"
  shows "(parseInt (lengthSeconds info) = Some 600 \<longrightarrow>
            handler_youtube toLowerCase env req =
              (case after_duration_check env u info of
                 (Inl e, calls) \<Rightarrow> (catch_youtube toLowerCase e, GetInfo u # calls)
               | (Inr res, calls) \<Rightarrow> (res, GetInfo u # calls)) \<and>
            (\<forall>f. chooseFormat env (formats info) = Inr (Some f) \<longrightarrow>
                   take 2 (snd (handler_youtube toLowerCase env req)) = [GetInfo u, Download u f])) \<and>
         (\<forall>d. parseInt (lengthSeconds info) = Some d \<and> 601 \<le> d \<longrightarrow>
            handler_youtube toLowerCase env req =
              (json_response 400 (Error_Json MSG_DURATION), [GetInfo u]))"
proof (intro conjI impI allI)
  assume d: "parseInt (lengthSeconds info) = Some 600"
  then have ok: "\<not> greater_than (parseInt (lengthSeconds info)) MAX_VIDEO_DURATION_SECONDS"
    by (simp add: greater_than_600)
  show past: "handler_youtube toLowerCase env req =
      (case after_duration_check env u info of
         (Inl e, calls) \<Rightarrow> (catch_youtube toLowerCase e, GetInfo u # calls)
       | (Inr res, calls) \<Rightarrow> (res, GetInfo u # calls))"
    by (rule handler_youtube_past_duration [OF assms ok])
  fix f
  assume "chooseFormat env (formats info) = Inr (Some f)"
  then show "take 2 (snd (handler_youtube toLowerCase env req)) = [GetInfo u, Download u f]"
    unfolding past
    by (simp add: after_duration_check_def split: prod.splits sum.splits)
next
  fix d
  assume "parseInt (lengthSeconds info) = Some d \<and> 601 \<le> d"
  then have "greater_than (parseInt (lengthSeconds info)) MAX_VIDEO_DURATION_SECONDS"
    by (simp add: greater_than_def MAX_VIDEO_DURATION_SECONDS_def)
  with assms show "handler_youtube toLowerCase env req =
      (json_response 400 (Error_Json MSG_DURATION), [GetInfo u])"
    by (simp add: handler_youtube_def try_youtube_def Let_def)
qed

lemmas ex_youtube_defs =
  ex_youtube_env_def ex_url_request_def ex_link_def

lemma parseInt_600: "parseInt ''600'' = Some 600"
  by (simp add: parseInt_def trimStart_def whiteSpace_def isDigit_def decimal_value_def digit_value_def)

lemma parseInt_601: "parseInt ''601'' = Some 601"
  by (simp add: parseInt_def trimStart_def whiteSpace_def isDigit_def decimal_value_def digit_value_def)

theorem duration_ceiling_witness:
  "parseInt ''600'' = Some 600 \<and>
   handler_youtube toLowerCase_ascii (ex_youtube_env (Some ''key'') ''600'' (Inr ''Hello'')) ex_url_request =
     (json_response 200 (Transcript_Json ''Hello''),
      [GetInfo ex_link, Download ex_link (Format 140),
       GenerateContent (contents PROMPT_AUDIO ''SUQzZGF0YQ=='' ''audio/mp4'')]) \<and>
   parseInt ''601'' = Some 601 \<and>
   handler_youtube toLowerCase_ascii (ex_youtube_env (Some ''key'') ''601'' (Inr ''Hello'')) ex_url_request =
     (json_response 400 (Error_Json MSG_DURATION), [GetInfo ex_link])"
proof -
  let ?info = "\<lambda>len. \<lparr>lengthSeconds = len, formats = [Format 140]\<rparr>"
  have at_600:
    "handler_youtube toLowerCase_ascii (ex_youtube_env (Some ''key'') ''600'' (Inr ''Hello'')) ex_url_request =
       (case after_duration_check (ex_youtube_env (Some ''key'') ''600'' (Inr ''Hello''))
               ex_link (?info ''600'') of
          (Inl e, calls) \<Rightarrow> (catch_youtube toLowerCase_ascii e, GetInfo ex_link # calls)
        | (Inr res, calls) \<Rightarrow> (res, GetInfo ex_link # calls))"
    using duration_ceiling [of ex_url_request ex_link
        "ex_youtube_env (Some ''key'') ''600'' (Inr ''Hello'')" "?info ''600''"
        toLowerCase_ascii]
    by (simp add: ex_youtube_defs parseInt_600)
  have at_601:
    "handler_youtube toLowerCase_ascii (ex_youtube_env (Some ''key'') ''601'' (Inr ''Hello'')) ex_url_request =
       (json_response 400 (Error_Json MSG_DURATION), [GetInfo ex_link])"
    using duration_ceiling [of ex_url_request ex_link
        "ex_youtube_env (Some ''key'') ''601'' (Inr ''Hello'')" "?info ''601''"
        toLowerCase_ascii]
    by (simp add: ex_youtube_defs parseInt_601)
  have "after_duration_check (ex_youtube_env (Some ''key'') ''600'' (Inr ''Hello''))
          ex_link (?info ''600'') =
        (Inr (json_response 200 (Transcript_Json ''Hello'')),
         [Download ex_link (Format 140),
          GenerateContent (contents PROMPT_AUDIO ''SUQzZGF0YQ=='' ''audio/mp4'')])"
    by (simp add: after_duration_check_def streamToBuffer_def transcribe_audio_def truthy_def
          ex_youtube_env_def Let_def)
  with at_600 at_601 show ?thesis
    by (simp add: parseInt_600 parseInt_601)
qed

text \<open>
  C7. In both handlers, whatever function the runtime's lower-casing is: when the call of
  the service throws an error whose message, lower-cased, holds "api key", the response is
  500 with the fixed message of the server's key being set up wrongly, whatever the rest
  of the message is.
\<close>

theorem api_key_failure_is_credential_misconfigured:
  assumes "str_includes (toLowerCase msg) ''api key''"
  shows "(http_method req = ''POST'' \<and> fileData req = Some data \<and> data \<noteq> [] \<and>
          mimeType req = Some mime \<and> mime \<noteq> [] \<and> truthy (API_KEY env) \<and>
          generateContent env (contents PROMPT_FILE data mime) = Inl (Error msg) \<longrightarrow>
            handler_file toLowerCase env req =
              (json_response 500 (Error_Json MSG_API_KEY_CONFIG),
               [GenerateContent (contents PROMPT_FILE data mime)])) \<and>
         (http_method yreq = ''POST'' \<and> url yreq = Some u \<and> u \<noteq> [] \<and> validateURL yenv u \<and>
          getInfo yenv u = Inr info \<and>
          \<not> greater_than (parseInt (lengthSeconds info)) MAX_VIDEO_DURATION_SECONDS \<and>
          chooseFormat yenv (formats info) = Inr (Some f) \<and>
          openStream yenv u f = Ends chunks \<and> truthy (API_KEY yenv) \<and>
          generateContent yenv
            (contents PROMPT_AUDIO (toBase64 yenv (concat chunks)) ''audio/mp4'') =
              Inl (Error msg) \<longrightarrow>
            handler_youtube toLowerCase yenv yreq =
              (json_response 500 (Error_Json MSG_API_KEY_CONFIG),
               [GetInfo u, Download u f,
                GenerateContent
                  (contents PROMPT_AUDIO (toBase64 yenv (concat chunks)) ''audio/mp4'')]))"
proof -
  have "catch_file toLowerCase (Error msg) = json_response 500 (Error_Json MSG_API_KEY_CONFIG)"
    using assms by (simp add: catch_file_def errorMessage_of_def)
  moreover have "catch_youtube toLowerCase (Error msg) = json_response 500 (Error_Json MSG_API_KEY_CONFIG)"
    using assms by (simp add: catch_youtube_def errorMessage_of_def)
  ultimately show ?thesis
    by (auto simp: handler_file_service_throws handler_youtube_service_throws)
qed

lemma ex_api_key_message:
  "str_includes (toLowerCase_ascii ''API key not valid. Please pass a valid API key.'') ''api key''"
  by (simp add: toLowerCase_ascii_def toLowerCase_char_def)

theorem api_key_failure_is_credential_misconfigured_witness:
  "handler_file toLowerCase_ascii (ex_ai_env (Inl (Error ''API key not valid. Please pass a valid API key.'')))
     ex_file_request =
     (json_response 500 (Error_Json MSG_API_KEY_CONFIG),
      [GenerateContent (contents PROMPT_FILE ''AAAA'' ''audio/mpeg'')]) \<and>
   handler_youtube toLowerCase_ascii
     (ex_youtube_env (Some ''key'') ''600''
        (Inl (Error ''API key not valid. Please pass a valid API key.'')))
     ex_url_request =
     (json_response 500 (Error_Json MSG_API_KEY_CONFIG),
      [GetInfo ex_link, Download ex_link (Format 140),
       GenerateContent (contents PROMPT_AUDIO ''SUQzZGF0YQ=='' ''audio/mp4'')])"
  using api_key_failure_is_credential_misconfigured
      [of toLowerCase_ascii "''API key not valid. Please pass a valid API key.''",
      OF ex_api_key_message,
      of ex_file_request "''AAAA''" "''audio/mpeg''"
         "ex_ai_env (Inl (Error ''API key not valid. Please pass a valid API key.''))"
         ex_url_request ex_link
         "ex_youtube_env (Some ''key'') ''600''
            (Inl (Error ''API key not valid. Please pass a valid API key.''))"
         "\<lparr>lengthSeconds = ''600'', formats = [Format 140]\<rparr>" "Format 140" "[''ID3'', ''data'']"]
  by (simp add: ex_file_request_def ex_ai_env_def ex_youtube_defs truthy_def parseInt_600
        greater_than_600)

text \<open>
  C8 (as amended). Whatever function the runtime's lower-casing is: when the call of the
  service throws an error whose message holds, lower-cased, "resource has been exhausted"
  (or, in transcribe-file, "request entity too large") and holds neither "api key" when
  lower-cased nor "API_KEY" as it is, the response is 413 with the message of the handler
  for a payload that is too large.
\<close>

theorem exhausted_failure_is_payload_too_large:
  assumes "\<not> str_includes (toLowerCase msg) ''api key''" "\<not> str_includes msg ''API_KEY''"
  shows "(http_method req = ''POST'' \<and> fileData req = Some data \<and> data \<noteq> [] \<and>
          mimeType req = Some mime \<and> mime \<noteq> [] \<and> truthy (API_KEY env) \<and>
          generateContent env (contents PROMPT_FILE data mime) = Inl (Error msg) \<and>
          (str_includes (toLowerCase msg) ''resource has been exhausted'' \<or>
           str_includes (toLowerCase msg) ''request entity too large'') \<longrightarrow>
            handler_file toLowerCase env req =
              (json_response 413 (Error_Json MSG_FILE_TOO_LARGE),
               [GenerateContent (contents PROMPT_FILE data mime)])) \<and>
         (http_method yreq = ''POST'' \<and> url yreq = Some u \<and> u \<noteq> [] \<and> validateURL yenv u \<and>
          getInfo yenv u = Inr info \<and>
          \<not> greater_than (parseInt (lengthSeconds info)) MAX_VIDEO_DURATION_SECONDS \<and>
          chooseFormat yenv (formats info) = Inr (Some f) \<and>
          openStream yenv u f = Ends chunks \<and> truthy (API_KEY yenv) \<and>
          generateContent yenv
            (contents PROMPT_AUDIO (toBase64 yenv (concat chunks)) ''audio/mp4'') =
              Inl (Error msg) \<and>
          str_includes (toLowerCase msg) ''resource has been exhausted'' \<longrightarrow>
            handler_youtube toLowerCase yenv yreq =
              (json_response 413 (Error_Json MSG_VIDEO_TOO_LARGE),
               [GetInfo u, Download u f,
                GenerateContent
                  (contents PROMPT_AUDIO (toBase64 yenv (concat chunks)) ''audio/mp4'')]))"
proof -
  have "catch_file toLowerCase (Error msg) = json_response 413 (Error_Json MSG_FILE_TOO_LARGE)"
    if "str_includes (toLowerCase msg) ''resource has been exhausted'' \<or>
        str_includes (toLowerCase msg) ''request entity too large''"
    using assms that by (simp add: catch_file_def errorMessage_of_def)
  moreover have "catch_youtube toLowerCase (Error msg) = json_response 413 (Error_Json MSG_VIDEO_TOO_LARGE)"
    if "str_includes (toLowerCase msg) ''resource has been exhausted''"
    using assms that by (simp add: catch_youtube_def errorMessage_of_def)
  ultimately show ?thesis
    by (auto simp: handler_file_service_throws handler_youtube_service_throws)
qed

lemma ex_exhausted_message:
  "\<not> str_includes (toLowerCase_ascii ''Resource has been exhausted (e.g. check quota).'') ''api key''"
  "\<not> str_includes ''Resource has been exhausted (e.g. check quota).'' ''API_KEY''"
  "str_includes (toLowerCase_ascii ''Resource has been exhausted (e.g. check quota).'')
     ''resource has been exhausted''"
  by (simp_all add: toLowerCase_ascii_def toLowerCase_char_def)

theorem exhausted_failure_is_payload_too_large_witness:
  "handler_file toLowerCase_ascii (ex_ai_env (Inl (Error ''Resource has been exhausted (e.g. check quota).'')))
     ex_file_request =
     (json_response 413 (Error_Json MSG_FILE_TOO_LARGE),
      [GenerateContent (contents PROMPT_FILE ''AAAA'' ''audio/mpeg'')]) \<and>
   handler_youtube toLowerCase_ascii
     (ex_youtube_env (Some ''key'') ''600''
        (Inl (Error ''Resource has been exhausted (e.g. check quota).'')))
     ex_url_request =
     (json_response 413 (Error_Json MSG_VIDEO_TOO_LARGE),
      [GetInfo ex_link, Download ex_link (Format 140),
       GenerateContent (contents PROMPT_AUDIO ''SUQzZGF0YQ=='' ''audio/mp4'')])"
  using exhausted_failure_is_payload_too_large
      [of toLowerCase_ascii "''Resource has been exhausted (e.g. check quota).''",
      OF ex_exhausted_message(1,2),
      of ex_file_request "''AAAA''" "''audio/mpeg''"
         "ex_ai_env (Inl (Error ''Resource has been exhausted (e.g. check quota).''))"
         ex_url_request ex_link
         "ex_youtube_env (Some ''key'') ''600''
            (Inl (Error ''Resource has been exhausted (e.g. check quota).''))"
         "\<lparr>lengthSeconds = ''600'', formats = [Format 140]\<rparr>" "Format 140" "[''ID3'', ''data'']"]
    ex_exhausted_message(3)
  by (simp add: ex_file_request_def ex_ai_env_def ex_youtube_defs truthy_def parseInt_600
        greater_than_600)

text \<open>
  The claim as first stated fails twice. The handlers look for "resource has been
  exhausted": a message that holds "resource exhausted" only gets the 500 of an unknown
  failure from both. And the test for the key comes first: a message that holds both
  "resource has been exhausted" and "API key" gets the 500 of the credential.
\<close>

lemma ex_resource_exhausted:
  "str_includes (toLowerCase_ascii ''Resource exhausted'') ''resource exhausted''"
  by (simp add: toLowerCase_ascii_def toLowerCase_char_def)

lemma ex_exhausted_for_key:
  "str_includes (toLowerCase_ascii ''Resource has been exhausted for this API key'')
     ''resource has been exhausted''"
  by (simp add: toLowerCase_ascii_def toLowerCase_char_def)

theorem resource_exhausted_counterexample:
  "str_includes (toLowerCase_ascii ''Resource exhausted'') ''resource exhausted'' \<and>
   handler_file toLowerCase_ascii (ex_ai_env (Inl (Error ''Resource exhausted''))) ex_file_request =
     (json_response 500 (Error_Details_Json MSG_FILE_FAILED ''Resource exhausted''),
      [GenerateContent (contents PROMPT_FILE ''AAAA'' ''audio/mpeg'')]) \<and>
   handler_youtube toLowerCase_ascii (ex_youtube_env (Some ''key'') ''600'' (Inl (Error ''Resource exhausted'')))
     ex_url_request =
     (json_response 500 (Error_Details_Json MSG_YOUTUBE_FAILED ''Resource exhausted''),
      [GetInfo ex_link, Download ex_link (Format 140),
       GenerateContent (contents PROMPT_AUDIO ''SUQzZGF0YQ=='' ''audio/mp4'')]) \<and>
   str_includes (toLowerCase_ascii ''Resource has been exhausted for this API key'')
     ''resource has been exhausted'' \<and>
   handler_file toLowerCase_ascii (ex_ai_env (Inl (Error ''Resource has been exhausted for this API key'')))
     ex_file_request =
     (json_response 500 (Error_Json MSG_API_KEY_CONFIG),
      [GenerateContent (contents PROMPT_FILE ''AAAA'' ''audio/mpeg'')])"
proof -
  have file_path: "handler_file toLowerCase_ascii (ex_ai_env (Inl e)) ex_file_request =
      (catch_file toLowerCase_ascii e, [GenerateContent (contents PROMPT_FILE ''AAAA'' ''audio/mpeg'')])" for e
    by (rule handler_file_service_throws)
       (simp_all add: ex_file_request_def ex_ai_env_def truthy_def)
  have youtube_path:
    "handler_youtube toLowerCase_ascii (ex_youtube_env (Some ''key'') ''600'' (Inl e)) ex_url_request =
      (catch_youtube toLowerCase_ascii e,
       [GetInfo ex_link, Download ex_link (Format 140),
        GenerateContent (contents PROMPT_AUDIO ''SUQzZGF0YQ=='' ''audio/mp4'')])" for e
    using handler_youtube_service_throws [of ex_url_request ex_link
        "ex_youtube_env (Some ''key'') ''600'' (Inl e)"
        "\<lparr>lengthSeconds = ''600'', formats = [Format 140]\<rparr>" "Format 140" "[''ID3'', ''data'']" e
        toLowerCase_ascii]
    by (simp add: ex_youtube_defs truthy_def parseInt_600 greater_than_600)
  have "catch_file toLowerCase_ascii (Error ''Resource exhausted'') =
        json_response 500 (Error_Details_Json MSG_FILE_FAILED ''Resource exhausted'')"
    by (simp add: catch_file_def errorMessage_of_def toLowerCase_ascii_def toLowerCase_char_def)
  moreover have "catch_youtube toLowerCase_ascii (Error ''Resource exhausted'') =
        json_response 500 (Error_Details_Json MSG_YOUTUBE_FAILED ''Resource exhausted'')"
    by (simp add: catch_youtube_def errorMessage_of_def toLowerCase_ascii_def toLowerCase_char_def)
  moreover have "catch_file toLowerCase_ascii (Error ''Resource has been exhausted for this API key'') =
        json_response 500 (Error_Json MSG_API_KEY_CONFIG)"
    by (simp add: catch_file_def errorMessage_of_def toLowerCase_ascii_def toLowerCase_char_def)
  ultimately show ?thesis
    by (simp add: file_path youtube_path ex_resource_exhausted ex_exhausted_for_key)
qed

text \<open>
  C10. For a POST request with a valid link, a length within the limit and a chosen audio
  format, the metadata request and the download are the first two calls of the handler
  whatever the credential is, and the credential is looked at only after the download has
  ended. When the download ends and \<^verbatim>\<open>API_KEY\<close> is absent or empty, the handler answers
  500 with the message of the credential after exactly these two calls; when it ends and
  the key is set, the next call gives the service all the chunks of the download. When
  the download fails, the handler answers as its \<^verbatim>\<open>catch\<close> block does for the error of
  the stream, with or without a key: the check of the credential is not reached.
\<close>

theorem download_precedes_credential_check:
  assumes "http_method req = ''POST''" "url req = Some u" "u \<noteq> []" "validateURL env u"
    "getInfo env u = Inr info" "parseInt (lengthSeconds info) = Some d" "d \<le> 600"
    "chooseFormat env (formats info) = Inr (Some f)"
  shows "take 2 (snd (handler_youtube toLowerCase env req)) = [GetInfo u, Download u f] \<and>
         (\<forall>chunks. openStream env u f = Ends chunks \<and> \<not> truthy (API_KEY env) \<longrightarrow>
            handler_youtube toLowerCase env req =
              (json_response 500 (Error_Json MSG_API_KEY_CONFIG), [GetInfo u, Download u f])) \<and>
         (\<forall>chunks. openStream env u f = Ends chunks \<and> truthy (API_KEY env) \<longrightarrow>
            take 3 (snd (handler_youtube toLowerCase env req)) =
              [GetInfo u, Download u f,
               GenerateContent
                 (contents PROMPT_AUDIO (toBase64 env (concat chunks)) ''audio/mp4'')]) \<and>
         (\<forall>message. openStream env u f = Fails message \<longrightarrow>
            handler_youtube toLowerCase env req =
              (catch_youtube toLowerCase (Error (''Stream error: '' @ message)),
               [GetInfo u, Download u f]))"
proof -
  have ok: "\<not> greater_than (parseInt (lengthSeconds info)) MAX_VIDEO_DURATION_SECONDS"
    using assms(6,7) by (simp add: greater_than_def MAX_VIDEO_DURATION_SECONDS_def)
  note past = handler_youtube_past_duration [OF assms(1-5) ok]
  have first: "take 2 (snd (handler_youtube toLowerCase env req)) = [GetInfo u, Download u f]"
    unfolding past using assms(8)
    by (simp add: after_duration_check_def split: prod.splits sum.splits)
  have marker: "str_includes ''API_KEY environment variable is not set.'' ''API_KEY''"
    by simp
  have no_key: "handler_youtube toLowerCase env req =
          (json_response 500 (Error_Json MSG_API_KEY_CONFIG), [GetInfo u, Download u f])"
    if "openStream env u f = Ends chunks" "\<not> truthy (API_KEY env)" for chunks
    unfolding past using assms(8) that marker
    by (simp add: after_duration_check_def streamToBuffer_def transcribe_audio_def
          catch_youtube_def errorMessage_of_def)
  have with_key: "take 3 (snd (handler_youtube toLowerCase env req)) =
          [GetInfo u, Download u f,
           GenerateContent (contents PROMPT_AUDIO (toBase64 env (concat chunks)) ''audio/mp4'')]"
    if "openStream env u f = Ends chunks" "truthy (API_KEY env)" for chunks
    unfolding past using assms(8) that
    by (simp add: after_duration_check_def streamToBuffer_def transcribe_audio_def Let_def
          split: sum.splits)
  have failed: "handler_youtube toLowerCase env req =
          (catch_youtube toLowerCase (Error (''Stream error: '' @ message)),
           [GetInfo u, Download u f])"
    if "openStream env u f = Fails message" for message
    unfolding past using assms(8) that
    by (simp add: after_duration_check_def streamToBuffer_def)
  from first no_key with_key failed show ?thesis by blast
qed

lemma ex_stream_error:
  "catch_youtube toLowerCase_ascii (Error (''Stream error: '' @ ''aborted'')) =
     json_response 500 (Error_Details_Json MSG_YOUTUBE_FAILED ''Stream error: aborted'')"
  by (simp add: catch_youtube_def errorMessage_of_def toLowerCase_ascii_def toLowerCase_char_def)

theorem download_precedes_credential_check_witness:
  "handler_youtube toLowerCase_ascii (ex_youtube_env None ''600'' (Inr ''Hello''))
     ex_url_request =
     (json_response 500 (Error_Json MSG_API_KEY_CONFIG),
      [GetInfo ex_link, Download ex_link (Format 140)]) \<and>
   take 3 (snd (handler_youtube toLowerCase_ascii
                  (ex_youtube_env (Some ''key'') ''600'' (Inr ''Hello'')) ex_url_request)) =
     [GetInfo ex_link, Download ex_link (Format 140),
      GenerateContent (contents PROMPT_AUDIO ''SUQzZGF0YQ=='' ''audio/mp4'')] \<and>
   handler_youtube toLowerCase_ascii ex_broken_stream_env ex_url_request =
     (json_response 500 (Error_Details_Json MSG_YOUTUBE_FAILED ''Stream error: aborted''),
      [GetInfo ex_link, Download ex_link (Format 140)])"
proof -
  let ?info = "\<lparr>lengthSeconds = ''600'', formats = [Format 140]\<rparr>"
  have no_key: "handler_youtube toLowerCase_ascii (ex_youtube_env None ''600'' (Inr ''Hello''))
      ex_url_request =
      (json_response 500 (Error_Json MSG_API_KEY_CONFIG),
       [GetInfo ex_link, Download ex_link (Format 140)])"
    using download_precedes_credential_check [of ex_url_request ex_link
        "ex_youtube_env None ''600'' (Inr ''Hello'')" ?info 600 "Format 140" toLowerCase_ascii]
    by (simp add: ex_youtube_defs truthy_def parseInt_600)
  have with_key: "take 3 (snd (handler_youtube toLowerCase_ascii
      (ex_youtube_env (Some ''key'') ''600'' (Inr ''Hello'')) ex_url_request)) =
      [GetInfo ex_link, Download ex_link (Format 140),
       GenerateContent (contents PROMPT_AUDIO ''SUQzZGF0YQ=='' ''audio/mp4'')]"
    using download_precedes_credential_check [of ex_url_request ex_link
        "ex_youtube_env (Some ''key'') ''600'' (Inr ''Hello'')" ?info 600 "Format 140"
        toLowerCase_ascii]
    by (simp add: ex_youtube_defs truthy_def parseInt_600)
  have "handler_youtube toLowerCase_ascii ex_broken_stream_env ex_url_request =
      (catch_youtube toLowerCase_ascii (Error (''Stream error: '' @ ''aborted'')),
       [GetInfo ex_link, Download ex_link (Format 140)])"
    using download_precedes_credential_check [of ex_url_request ex_link
        ex_broken_stream_env ?info 600 "Format 140" toLowerCase_ascii]
    by (simp add: ex_broken_stream_env_def ex_youtube_defs parseInt_600)
  with no_key with_key show ?thesis
    by (simp only: ex_stream_error)
qed

section \<open>The transcriber component\<close>

lemma MSG_SIZE_LIMIT_not_fetch: "\<not> str_includes MSG_SIZE_LIMIT ''Failed to fetch''"
  by (simp add: MSG_SIZE_LIMIT_def)

text \<open>
  C4 (as amended). In part_000, in file mode, a selected file of more than 4.5 MB
  (4718592 bytes) is rejected before any call leaves the browser: the state gets the
  message of the exceeded size, nothing is loading, there is no transcript, and no call
  is made. (components/VideoTranscriber.tsx has no ceiling.)
\<close>

theorem oversize_file_rejected_before_any_call:
  assumes "inputType s = Type_file" "file_sel s = Some f" "4718592 < file_size f"
  shows "handleTranscribe_part_000 env s =
           (s\<lparr>isLoading := False, transcript := [],
              error := MSG_FAILED_PREFIX @ MSG_SIZE_LIMIT, isCopied := False\<rparr>, [])"
  using assms MSG_SIZE_LIMIT_not_fetch
  by (simp add: handleTranscribe_part_000_def try_transcribe_part_000_def MAX_FILE_BYTES_def
        message_of_def Let_def)

theorem oversize_file_rejected_before_any_call_witness:
  "file_size ex_big_file = 5242880 \<and>
   handleTranscribe_part_000 ex_proxy_env ex_file_state_part_000 =
     (ex_file_state_part_000\<lparr>error := MSG_FAILED_PREFIX @ MSG_SIZE_LIMIT\<rparr>, [])"
  using oversize_file_rejected_before_any_call [of ex_file_state_part_000 ex_big_file ex_proxy_env]
  by (simp add: ex_file_state_part_000_def ex_big_file_def)

text \<open>
  The claim as first stated fails for components/VideoTranscriber.tsx: no size is checked
  there, and a file of 5 MB is read and sent to the transcription service.
\<close>

theorem oversize_file_sent_counterexample:
  "file_size ex_big_file = 5242880 \<and>
   handleTranscribe toLowerCase_ascii ex_direct_env ex_file_state =
     (ex_file_state\<lparr>transcript := ''Hello''\<rparr>,
      [GenerateContent (contents PROMPT_VIDEO ''AAAA'' ''video/mp4'')])"
  by (simp add: handleTranscribe_def try_transcribe_def read_base64_def second_field_def
        ex_direct_env_def ex_file_state_def ex_big_file_def Let_def)

text \<open>
  C9. In both components a change of the input mode sets the mode to the new choice and
  sets the link, the selected file, the name of the file, the transcript and the error
  (and, in part_000, the copied flag) to their first, empty values, in one step; only the
  loading flag is kept as it was.
\<close>

theorem handleTypeChange_full_reset:
  "handleTypeChange t s =
     \<lparr>inputType = t, urlValue = [], file_sel = None, fileName = [],
      isLoading = isLoading s, transcript = [], error = []\<rparr> \<and>
   handleTypeChange_part_000 t s' =
     \<lparr>inputType = t, urlValue = [], file_sel = None, fileName = [],
      isLoading = isLoading s', transcript = [], error = [], isCopied = False\<rparr>"
  by (cases s, cases s') (simp add: handleTypeChange_def resetState_def
        handleTypeChange_part_000_def resetState_part_000_def)

end
